theory Spec2Isabelle
  imports Complex_Main "HOL-Library.Sublist"
begin

section \<open>Python values, errors and string formatting\<close>

text \<open>
  Every exception the training binary can raise is a value. \<open>StandardError\<close> carries the
  two constructor arguments the source passes (a format string and the task name, which the
  source does not interpolate). \<open>OutOfRangeError\<close> is \<open>tf.errors.OutOfRangeError\<close>, the
  signal of an exhausted input queue. \<open>GraphValueError\<close> is the \<open>ValueError\<close> that
  TensorFlow raises while the graph or its supervisor is constructed (incompatible static
  shapes, an empty list of readers, variables without a device), and \<open>SavetxtError\<close> the
  exception with which \<open>np.savetxt\<close> rejects a value that is not an array of one or two
  dimensions; their messages are not represented. \<open>OtherError\<close> stands for any other
  failure raised by the libraries at run time.
\<close>

datatype error =
    IOError string
  | IndexError
  | KeyError string
  | StopIteration
  | TypeError
  | AttributeError
  | ZeroDivisionError
  | StandardError string string
  | ValueError string
  | GraphValueError
  | SavetxtError
  | OutOfRangeError
  | OtherError string

text \<open>Decimal rendering, as \<open>str(n)\<close> and the \<open>%d\<close> and \<open>%s\<close> conversions do for integers.\<close>

definition digit :: "nat \<Rightarrow> char" where
  "digit n = ''0123456789'' ! n"

fun str_nat :: "nat \<Rightarrow> string" where
  "str_nat n = (if n < 10 then [digit n] else str_nat (n div 10) @ [digit (n mod 10)])"

declare str_nat.simps [simp del]

definition str_int :: "int \<Rightarrow> string" where
  "str_int i = (if i < 0 then CHR ''-'' # str_nat (nat (- i)) else str_nat (nat i))"

text \<open>\<open>str\<close> of a value that may be \<open>None\<close>.\<close>

definition str_opt_int :: "int option \<Rightarrow> string" where
  "str_opt_int v = (case v of None \<Rightarrow> ''None'' | Some i \<Rightarrow> str_int i)"

section \<open>Tasks and clusters\<close>

text \<open>
  \<open>main\<close> builds the task from the \<open>task\<close> entry of \<open>TF_CONFIG\<close>: a role name and an
  index. The index is optional in the model because \<open>start_server\<close> tests it against
  \<open>None\<close>; an empty role name is the falsy role that \<open>start_server\<close> rejects.
  A cluster specification maps role names to address lists.
\<close>

record TaskSpec =
  type :: string
  index :: "int option"

type_synonym ClusterSpec = "(string \<times> string list) list"

text \<open>Truthiness of an optional cluster: \<open>None\<close> and the empty mapping are falsy.\<close>

definition cluster_truthy :: "ClusterSpec option \<Rightarrow> bool" where
  "cluster_truthy c = (case c of None \<Rightarrow> False | Some d \<Rightarrow> d \<noteq> [])"

text \<open>Python 2 comparisons of a possibly-\<open>None\<close> index with an integer literal.\<close>

definition py_eq :: "int option \<Rightarrow> int \<Rightarrow> bool" where
  "py_eq v k = (v = Some k)"

definition py_gt :: "int option \<Rightarrow> int \<Rightarrow> bool" where
  "py_gt v k = (case v of None \<Rightarrow> False | Some i \<Rightarrow> i > k)"

definition task_as_string :: "TaskSpec \<Rightarrow> string" where
  "task_as_string task = ''/job:'' @ type task @ ''/task:'' @ str_opt_int (index task)"

section \<open>The Trainer object\<close>

record Trainer =
  self_cluster :: "ClusterSpec option"
  self_task :: TaskSpec
  self_is_master :: bool
  self_train_dir :: string
  self_config :: bool

text \<open>
  The fields of the object carry the prefix \<open>self_\<close>; \<open>self_config\<close> holds the
  \<open>log_device_placement\<close> setting of the session configuration.
  \<open>Trainer.__init__\<close>: the fields are assigned, then the replica guard is evaluated on the
  freshly computed \<open>is_master\<close>.
\<close>

definition Trainer_init :: "ClusterSpec option \<Rightarrow> TaskSpec \<Rightarrow> string \<Rightarrow> bool \<Rightarrow> error + Trainer" where
  "Trainer_init cluster task train_dir log_device_placement =
     (let self = \<lparr> self_cluster = cluster, self_task = task,
                   self_is_master = (type task = ''master'' \<and> py_eq (index task) 0),
                   self_train_dir = train_dir, self_config = log_device_placement \<rparr>
      in if self_is_master self \<and> py_gt (index (self_task self)) 0
         then Inl (StandardError ''%s: Only one replica of master expected''
                     (task_as_string (self_task self)))
         else Inr self)"

section \<open>Component lookup by name\<close>

text \<open>
  What \<open>getattr(module, name, None)\<close> can yield: \<open>None\<close>, a class (its name and the names
  of all its proper superclasses), or some other object, of which only the truth value
  matters. A module is the mapping from its attribute names to their values.
\<close>

datatype pyval = PyNone | PyClass string "string list" | PyObject bool

type_synonym pymodule = "string \<rightharpoonup> pyval"

definition getattr :: "pymodule \<Rightarrow> string \<Rightarrow> pyval \<Rightarrow> pyval" where
  "getattr m name dflt = (case m name of None \<Rightarrow> dflt | Some v \<Rightarrow> v)"

fun truthy :: "pyval \<Rightarrow> bool" where
  "truthy PyNone = False"
| "truthy (PyClass _ _) = True"
| "truthy (PyObject b) = b"

text \<open>
  \<open>issubclass(candidate, expected_superclass)\<close>, the expected superclass being given by its
  \<open>__name__\<close>: a class is a subclass of itself and of each of its superclasses; a first
  argument that is not a class raises \<open>TypeError\<close>.
\<close>

fun issubclass :: "pyval \<Rightarrow> string \<Rightarrow> error + bool" where
  "issubclass (PyClass c supers) expected = Inr (c = expected \<or> expected \<in> set supers)"
| "issubclass _ expected = Inl TypeError"

text \<open>
  The loop of \<open>validate_class_name\<close> over the candidates, one per module. Both \<open>raise\<close>
  statements name \<open>flags.FlagsError\<close>, and the module \<open>tensorflow.flags\<close> that the source
  imports defines no \<open>FlagsError\<close>: evaluating the name raises \<open>AttributeError\<close>, before
  any message is formatted.
\<close>

fun validate_candidates :: "string \<Rightarrow> string \<Rightarrow> string \<Rightarrow> pyval list \<Rightarrow> error + bool" where
  "validate_candidates flag_value category expected [] =
     Inl AttributeError"
| "validate_candidates flag_value category expected (candidate # candidates) =
     (if \<not> truthy candidate then validate_candidates flag_value category expected candidates
      else case issubclass candidate expected of
             Inl e \<Rightarrow> Inl e
           | Inr sub \<Rightarrow>
               if \<not> sub
               then Inl AttributeError
               else Inr True)"

definition validate_class_name :: "string \<Rightarrow> string \<Rightarrow> pymodule list \<Rightarrow> string \<Rightarrow> error + bool" where
  "validate_class_name flag_value category modules expected_superclass =
     validate_candidates flag_value category expected_superclass
       (map (\<lambda>m. getattr m flag_value PyNone) modules)"

text \<open>
  \<open>find_class_by_name\<close>: \<open>next\<close> over the truthy attributes; an exhausted generator raises
  \<open>StopIteration\<close>.
\<close>

definition find_class_by_name :: "string \<Rightarrow> pymodule list \<Rightarrow> error + pyval" where
  "find_class_by_name name modules =
     (case List.find truthy (map (\<lambda>m. getattr m name PyNone) modules) of
        None \<Rightarrow> Inl StopIteration
      | Some a \<Rightarrow> Inr a)"

text \<open>
  Calling the looked-up object: a class yields an instance, identified with its class; an
  object that is not a class is taken not to accept the call.
\<close>

fun instantiate :: "pyval \<Rightarrow> error + pyval" where
  "instantiate (PyClass c supers) = Inr (PyClass c supers)"
| "instantiate _ = Inl TypeError"

section \<open>Flags and graph entities\<close>

text \<open>
  The command-line flags the binary reads, as one record (\<open>FLAGS.batch_size\<close> is
  \<open>FLAGS_batch_size\<close>). \<open>hidden_size_1\<close> and \<open>hidden_size_2\<close> are read by
  \<open>get_forward_parameters\<close> and defined by another module. Float-valued flags are carried
  as real numbers; the binary only passes them on and tests one of them against zero.
\<close>

record FLAGS =
  FLAGS_train_dir :: string
  FLAGS_train_data_pattern :: string
  FLAGS_feature_names :: string
  FLAGS_feature_sizes :: string
  FLAGS_frame_features :: bool
  FLAGS_frame_only :: bool
  FLAGS_model :: string
  FLAGS_start_new_model :: bool
  FLAGS_batch_size :: int
  FLAGS_label_loss :: string
  FLAGS_regularization_penalty :: real
  FLAGS_base_learning_rate :: real
  FLAGS_learning_rate_decay :: real
  FLAGS_learning_rate_decay_examples :: real
  FLAGS_num_epochs :: int
  FLAGS_num_readers :: int
  FLAGS_optimizer :: string
  FLAGS_clip_gradient_norm :: real
  FLAGS_log_device_placement :: bool
  FLAGS_hidden_size_1 :: int
  FLAGS_hidden_size_2 :: int

text \<open>
  Graph construction is symbolic: each TensorFlow call adds a node and returns a handle to
  it. The model keeps that level: a tensor is the expression that built it. Leaves are
  variables and tensors produced by other modules (reader and model outputs), each with
  its name and its static shape, which is taken to be fully known. What TensorFlow
  computes for a node at run time is outside the model.
\<close>

datatype tensor =
    Variable string "nat list"
  | External string "nat list"
  | Const real
  | IntConst int
  | Mul tensor tensor
  | Add tensor tensor
  | AddN "tensor list"
  | Cast tensor
  | Reshape tensor "int list"
  | Concat tensor tensor
  | Identity tensor "tensor list"
  | ExponentialDecay real tensor real real bool
  | CalculateLoss pyval tensor tensor
  | CalculateLossMix pyval tensor tensor tensor
  | Optimizer pyval tensor
  | ApplyGradients tensor tensor tensor real
  | TrainOp tensor tensor tensor real

text \<open>
  \<open>Concat a b\<close> is \<open>tf.concat((a, b), axis=0)\<close>; \<open>Identity t deps\<close> is \<open>tf.identity(t)\<close> behind
  a barrier on the operations \<open>deps\<close>; \<open>ExponentialDecay\<close> carries the arguments of
  \<open>tf.train.exponential_decay\<close> in their order, the last one the \<open>staircase\<close> flag;
  \<open>TrainOp loss optimizer global_step clip\<close> is the tensor that
  \<open>slim.learning.create_train_op\<close> returns, and \<open>ApplyGradients\<close>, with the same arguments,
  the gradient update that the optimizer creates inside that call.
\<close>

text \<open>
  The shape of a reshaped tensor with \<open>n\<close> elements: the entry \<open>-1\<close> stands for the
  dimension that makes the sizes agree.
\<close>

definition reshape_shape :: "nat \<Rightarrow> int list \<Rightarrow> nat list" where
  "reshape_shape n dims =
     map (\<lambda>d. if d = - 1 then n div nat (prod_list (filter (\<lambda>d. d \<noteq> - 1) dims)) else nat d) dims"

text \<open>
  The static shape, for the nodes whose shape the binary or a shape check reads; the
  other nodes count as scalars.
\<close>

fun get_shape :: "tensor \<Rightarrow> nat list" where
  "get_shape (Variable _ shape) = shape"
| "get_shape (External _ shape) = shape"
| "get_shape (Cast t) = get_shape t"
| "get_shape (Identity t _) = get_shape t"
| "get_shape (Reshape t dims) = reshape_shape (prod_list (get_shape t)) dims"
| "get_shape (Concat a b) =
     (case (get_shape a, get_shape b) of
        (m # cols, n # _) \<Rightarrow> (m + n) # cols
      | _ \<Rightarrow> [])"
| "get_shape _ = []"

text \<open>
  \<open>tf.reshape\<close> and \<open>tf.concat\<close> check the static shapes when the node is created and
  raise \<open>ValueError\<close> there. A tensor of \<open>n\<close> elements can be reshaped to \<open>dims\<close> when no
  entry is below \<open>-1\<close> and either no entry is \<open>-1\<close> and the entries multiply to \<open>n\<close>, or one
  entry is \<open>-1\<close> and the product of the others is not zero and divides \<open>n\<close>. Two tensors
  can be joined along axis 0 when both have at least one dimension and agree on all the
  others.
\<close>

definition reshape_ok :: "nat \<Rightarrow> int list \<Rightarrow> bool" where
  "reshape_ok n dims =
     (list_all (\<lambda>d. - 1 \<le> d) dims \<and>
      (case filter (\<lambda>d. d = - 1) dims of
         [] \<Rightarrow> prod_list dims = int n
       | [_] \<Rightarrow> (let k = prod_list (filter (\<lambda>d. d \<noteq> - 1) dims) in k \<noteq> 0 \<and> int n mod k = 0)
       | _ \<Rightarrow> False))"

definition tf_reshape :: "tensor \<Rightarrow> int list \<Rightarrow> error + tensor" where
  "tf_reshape t dims =
     (if reshape_ok (prod_list (get_shape t)) dims then Inr (Reshape t dims)
      else Inl GraphValueError)"

definition tf_concat :: "tensor \<Rightarrow> tensor \<Rightarrow> error + tensor" where
  "tf_concat a b =
     (case (get_shape a, get_shape b) of
        (m # cols, n # cols') \<Rightarrow> if cols = cols' then Inr (Concat a b) else Inl GraphValueError
      | _ \<Rightarrow> Inl GraphValueError)"

text \<open>\<open>xs[i]\<close> for a non-negative literal index: \<open>IndexError\<close> out of range.\<close>

definition item :: "'a list \<Rightarrow> nat \<Rightarrow> error + 'a" where
  "item xs i = (if i < length xs then Inr (xs ! i) else Inl IndexError)"

text \<open>Python's substring test \<open>sub in s\<close>.\<close>

fun str_in :: "string \<Rightarrow> string \<Rightarrow> bool" where
  "str_in sub [] = (sub = [])"
| "str_in sub (c # cs) = (prefix sub (c # cs) \<or> str_in sub cs)"

section \<open>The input pipeline\<close>

text \<open>
  A reader: its kind, the features it parses, its label vocabulary, and the four batch
  tensors (ids, features, labels, frame counts) that the batch join yields for it.
\<close>

datatype reader_kind = YT8MFrameFeatureOnlyReader | YT8MFrameFeatureReader
  | YT8MAggregatedFeatureReader

record reader =
  reader_kind :: reader_kind
  reader_feature_names :: "string list"
  reader_feature_sizes :: "int list"
  num_classes :: int
  batch_tensors :: "tensor \<times> tensor \<times> tensor \<times> tensor"

text \<open>
  The arguments \<open>get_input_data_tensors\<close> hands to \<open>string_input_producer\<close> and
  \<open>shuffle_batch_join\<close>: the description of the queue-based pipeline it sets up.
\<close>

record input_pipeline =
  pipeline_files :: "string list"
  pipeline_num_epochs :: "int option"
  pipeline_shuffle :: bool
  pipeline_readers :: "reader list"
  pipeline_batch_size :: int
  pipeline_capacity :: int
  pipeline_min_after_dequeue :: int
  pipeline_allow_smaller_final_batch :: bool
  pipeline_enqueue_many :: bool

section \<open>The model's result bundle and the environment\<close>

text \<open>
  The dictionary returned by \<open>create_model\<close>, restricted to the keys \<open>build_graph\<close> reads:
  a key is present exactly when its field is not \<open>None\<close> (\<open>result["loss"]\<close> is
  \<open>result_loss\<close>). Beside the dictionary, the call leaves variables (name and shape),
  regularization losses and update operations in the graph.
\<close>

record model_result =
  result_predictions :: "tensor option"
  result_bottleneck :: "tensor option"
  result_predictions_class :: "tensor option"
  result_loss_sparse :: "tensor option"
  result_loss :: "tensor option"
  result_regularization_loss :: "tensor option"
  result_update_ops :: "tensor list option"

record model_graph =
  result :: model_result
  trainable_variables :: "(string \<times> nat list) list"
  model_variables :: "(string \<times> nat list) list"
  regularization_losses :: "tensor list"
  UPDATE_OPS :: "tensor list"

text \<open>One iteration of the training loop, as the session and its supervisor decide it.\<close>

datatype step_event =
    ShouldStop
  | StepDone int
  | StepRaises error

text \<open>
  A graph: its named collections, its summaries, its input pipeline, and whether every
  variable in it has a device. A collection is the list of the values added under its
  name; \<open>build_graph\<close> adds tensors, and under \<open>parameters\<close> one value that is itself a list
  of tensors.
\<close>

datatype collection_item = TensorItem tensor | ListItem "tensor list"

record graph =
  collections :: "string \<Rightarrow> collection_item list"
  summaries :: "(string \<times> tensor) list"
  pipeline :: "input_pipeline option"
  variables_placed :: bool

text \<open>
  Everything \<open>train_autoencoder.py\<close> obtains from the libraries and the system:
  \<^item> \<open>Glob\<close>: \<open>gfile.Glob\<close>, the files matching a pattern;
  \<^item> \<open>delete_error\<close>: whether \<open>gfile.DeleteRecursively\<close> fails on a directory, and
    \<open>left_behind\<close>: the paths that a failing call leaves in place;
  \<^item> \<open>latest_checkpoint\<close>: \<open>tf.train.latest_checkpoint\<close> of a directory;
  \<^item> \<open>import_meta_graph\<close>: the graph restored from a snapshot file;
  \<^item> \<open>GetListOfFeatureNamesAndSizes\<close> and \<open>readers\<close>: the helpers that parse the feature
    flags and construct a reader;
  \<^item> \<open>labels_autoencoder\<close>, \<open>losses\<close>, \<open>tf_train\<close>: the modules searched for the model, the
    loss and the optimizer;
  \<^item> \<open>create_model\<close>: what an instance of a model class adds to the graph, given the model
    input, the frame counts, the vocabulary size and the labels;
  \<^item> \<open>tf_version\<close>: the version string of the library, which \<open>main\<close> logs;
  \<^item> \<open>session\<close>: what happens at each iteration of the training loop: the supervisor asks
    to stop, or the step returns the global step it reached, or the step raises.
\<close>

record env =
  Glob :: "string \<Rightarrow> string list"
  delete_error :: "string \<Rightarrow> bool"
  left_behind :: "string \<Rightarrow> bool"
  latest_checkpoint :: "string \<Rightarrow> string option"
  import_meta_graph :: "string \<Rightarrow> error + graph"
  GetListOfFeatureNamesAndSizes :: "string \<Rightarrow> string \<Rightarrow> string list \<times> int list"
  readers :: "reader_kind \<Rightarrow> string list \<Rightarrow> int list \<Rightarrow> reader"
  labels_autoencoder :: pymodule
  losses :: pymodule
  tf_train :: pymodule
  create_model :: "pyval \<Rightarrow> tensor \<Rightarrow> tensor \<Rightarrow> int \<Rightarrow> tensor \<Rightarrow> model_graph"
  tf_version :: string
  session :: "step_event list"

section \<open>Reading the training data\<close>

text \<open>
  \<open>get_input_data_tensors\<close>. The result is the pipeline and the four batch tensors it
  delivers. The log line on the batch size is not part of the result. After the check of
  the matched files, \<open>tf.train.shuffle_batch_join\<close> raises \<open>ValueError\<close> when it is given no
  reader at all, and divides by the difference of capacity and minimum, which is zero
  when \<open>FLAGS.batch_size\<close> is.
\<close>

definition get_input_data_tensors ::
  "env \<Rightarrow> FLAGS \<Rightarrow> reader \<Rightarrow> string \<Rightarrow> int \<Rightarrow> int option \<Rightarrow> int \<Rightarrow>
   error + (input_pipeline \<times> tensor \<times> tensor \<times> tensor \<times> tensor)" where
  "get_input_data_tensors env flags reader data_pattern batch_size num_epochs num_readers =
     (let files = Glob env data_pattern in
      if files = []
      then Inl (IOError (''Unable to find training files. data_pattern='' @
                  CHR 0x27 # data_pattern @ CHR 0x27 # ''.''))
      else if num_readers \<le> 0 then Inl GraphValueError
      else if FLAGS_batch_size flags * 5 - FLAGS_batch_size flags = 0 then Inl ZeroDivisionError
      else Inr (\<lparr> pipeline_files = files,
                  pipeline_num_epochs = num_epochs,
                  pipeline_shuffle = True,
                  pipeline_readers = replicate (nat num_readers) reader,
                  pipeline_batch_size = batch_size,
                  pipeline_capacity = FLAGS_batch_size flags * 5,
                  pipeline_min_after_dequeue = FLAGS_batch_size flags,
                  pipeline_allow_smaller_final_batch = True,
                  pipeline_enqueue_many = True \<rparr>,
                batch_tensors reader))"

section \<open>Forward parameters\<close>

text \<open>The trainable variables whose name mentions a layer and a kind.\<close>

definition vars_named ::
  "string \<Rightarrow> string \<Rightarrow> (string \<times> nat list) list \<Rightarrow> (string \<times> nat list) list" where
  "vars_named layer kind t_vars =
     filter (\<lambda>var. str_in layer (fst var) \<and> str_in kind (fst var)) t_vars"

text \<open>
  One block of \<open>get_forward_parameters\<close>: the first matching bias reshaped to one row,
  stacked under the first matching weight matrix. Indexing an empty list of matches
  raises \<open>IndexError\<close>; the reshape and the concatenation raise when the shapes do not fit.
\<close>

definition reshaped_bias :: "(string \<times> nat list) list \<Rightarrow> int \<Rightarrow> error + tensor" where
  "reshaped_bias biases width =
     (case item biases 0 of
        Inl e \<Rightarrow> Inl e
      | Inr (name, shape) \<Rightarrow> tf_reshape (Variable name shape) [1, width])"

definition weights_over_bias :: "(string \<times> nat list) list \<Rightarrow> tensor \<Rightarrow> error + tensor" where
  "weights_over_bias weights bias =
     (case item weights 0 of
        Inl e \<Rightarrow> Inl e
      | Inr (name, shape) \<Rightarrow> tf_concat (Variable name shape) bias)"

definition get_forward_parameters ::
  "FLAGS \<Rightarrow> (string \<times> nat list) list \<Rightarrow> int \<Rightarrow> error + tensor list" where
  "get_forward_parameters flags t_vars vocab_size =
     (let h1_vars_weight = vars_named ''hidden_1'' ''weights'' t_vars;
          h1_vars_biases = vars_named ''hidden_1'' ''biases'' t_vars;
          h2_vars_weight = vars_named ''hidden_2'' ''weights'' t_vars;
          h2_vars_biases = vars_named ''hidden_2'' ''biases'' t_vars;
          o1_vars_weight = vars_named ''output_1'' ''weights'' t_vars;
          o1_vars_biases = vars_named ''output_1'' ''biases'' t_vars;
          o2_vars_weight = vars_named ''output_2'' ''weights'' t_vars;
          o2_vars_biases = vars_named ''output_2'' ''biases'' t_vars
      in
      case reshaped_bias h1_vars_biases (FLAGS_hidden_size_1 flags) of Inl e \<Rightarrow> Inl e | Inr h1b \<Rightarrow>
      case reshaped_bias h2_vars_biases (FLAGS_hidden_size_2 flags) of Inl e \<Rightarrow> Inl e | Inr h2b \<Rightarrow>
      case reshaped_bias o1_vars_biases (FLAGS_hidden_size_1 flags) of Inl e \<Rightarrow> Inl e | Inr o1b \<Rightarrow>
      case reshaped_bias o2_vars_biases vocab_size of Inl e \<Rightarrow> Inl e | Inr o2b \<Rightarrow>
      case weights_over_bias h1_vars_weight h1b of Inl e \<Rightarrow> Inl e | Inr vars_1 \<Rightarrow>
      case weights_over_bias h2_vars_weight h2b of Inl e \<Rightarrow> Inl e | Inr vars_2 \<Rightarrow>
      case weights_over_bias o1_vars_weight o1b of Inl e \<Rightarrow> Inl e | Inr vars_3 \<Rightarrow>
      case weights_over_bias o2_vars_weight o2b of Inl e \<Rightarrow> Inl e | Inr vars_4 \<Rightarrow>
      Inr [vars_1, vars_2, vars_3, vars_4])"

section \<open>Shapes that fit a forward-parameter block\<close>

text \<open>
  The shapes of one block fit when the first matching bias has as many elements as the
  block is wide (or the width is \<open>-1\<close>, which \<open>tf.reshape\<close> reads as the dimension to infer)
  and the first matching weight is a matrix with that many columns. The predicate is used
  to state when \<open>get_forward_parameters\<close> passes the shape checks.
\<close>

definition block_shapes_fit ::
  "(string \<times> nat list) list \<Rightarrow> (string \<times> nat list) list \<Rightarrow> int \<Rightarrow> bool" where
  "block_shapes_fit weights biases width =
     (case (weights, biases) of
        ((weight_name, weight_shape) # _, (bias_name, bias_shape) # _) \<Rightarrow>
          (width = - 1 \<or> width = int (prod_list bias_shape)) \<and>
          length weight_shape = 2 \<and> weight_shape ! 1 = prod_list bias_shape
      | _ \<Rightarrow> False)"

section \<open>Building the graph\<close>

definition add_to_collection ::
  "string \<Rightarrow> collection_item \<Rightarrow> (string \<Rightarrow> collection_item list) \<Rightarrow> (string \<Rightarrow> collection_item list)" where
  "add_to_collection name v c = c(name := c name @ [v])"

text \<open>The name of the operation behind a variable: the variable's name up to the colon.\<close>

definition op_name :: "string \<Rightarrow> string" where
  "op_name name = takeWhile (\<lambda>c. c \<noteq> CHR '':'') name"

text \<open>
  Per-frame predictions (rank 3) are flattened into the batch dimension, and the labels
  with them; \<open>as_list()[2]\<close> of labels of lower rank raises \<open>IndexError\<close>.
\<close>

definition flatten_frames :: "tensor \<Rightarrow> tensor \<Rightarrow> error + (tensor \<times> tensor)" where
  "flatten_frames predictions labels_batch =
     (if length (get_shape predictions) = 3
      then case item (get_shape predictions) 2 of
             Inl e \<Rightarrow> Inl e
           | Inr d \<Rightarrow>
               (case tf_reshape predictions [- 1, int d] of
                  Inl e \<Rightarrow> Inl e
                | Inr predictions' \<Rightarrow>
                    (case item (get_shape labels_batch) 2 of
                       Inl e \<Rightarrow> Inl e
                     | Inr d' \<Rightarrow>
                         (case tf_reshape labels_batch [- 1, int d'] of
                            Inl e \<Rightarrow> Inl e
                          | Inr labels_batch' \<Rightarrow> Inr (predictions', labels_batch'))))
      else Inr (predictions, labels_batch))"

text \<open>The choice of the label loss among the model's own, the mixed and the plain one.\<close>

definition select_label_loss :: "model_result \<Rightarrow> pyval \<Rightarrow> tensor \<Rightarrow> tensor \<Rightarrow> tensor \<Rightarrow> tensor" where
  "select_label_loss r label_loss_fn predictions predictions_class labels_batch =
     (case result_loss r of
        Some l \<Rightarrow> l
      | None \<Rightarrow>
          (case result_predictions_class r of
             Some _ \<Rightarrow> CalculateLossMix label_loss_fn predictions predictions_class labels_batch
           | None \<Rightarrow> CalculateLoss label_loss_fn predictions labels_batch))"

text \<open>
  \<open>build_graph\<close>, in the order of the source: global step, learning rate, optimizer (the
  call of the optimizer class), input tensors, model, forward parameters, predictions, the
  optional outputs with their defaults, label loss, regularization loss, update barrier,
  final loss, train operation, and the registration of the handles. The library already
  fills the collection \<open>train_op\<close> inside \<open>create_train_op\<close>, first with the gradient update
  and then with the train operation; \<open>build_graph\<close> adds the train operation once more, so
  that the first element of the collection is the gradient update.
\<close>

definition build_graph ::
  "env \<Rightarrow> FLAGS \<Rightarrow> reader \<Rightarrow> pyval \<Rightarrow> string \<Rightarrow> pyval \<Rightarrow> int \<Rightarrow> real \<Rightarrow> real \<Rightarrow> real \<Rightarrow> pyval \<Rightarrow>
   real \<Rightarrow> real \<Rightarrow> int \<Rightarrow> int option \<Rightarrow> error + graph" where
  "build_graph env flags reader model train_data_pattern label_loss_fn batch_size
     base_learning_rate learning_rate_decay_examples learning_rate_decay optimizer_class
     clip_gradient_norm regularization_penalty num_readers num_epochs =
     (let global_step = Variable ''global_step'' [];
          learning_rate = ExponentialDecay base_learning_rate
                            (Mul global_step (IntConst batch_size))
                            learning_rate_decay_examples learning_rate_decay True
      in
      case instantiate optimizer_class of
        Inl e \<Rightarrow> Inl e
      | Inr optimizer_instance \<Rightarrow>
      let optimizer = Optimizer optimizer_instance learning_rate
      in
      case get_input_data_tensors env flags reader train_data_pattern batch_size num_epochs
             num_readers of
        Inl e \<Rightarrow> Inl e
      | Inr (input, unused_video_id, model_input_raw, labels_batch0, num_frames) \<Rightarrow>
      let mg = create_model env model labels_batch0 num_frames (num_classes reader) labels_batch0;
          r = result mg
      in
      case get_forward_parameters flags (trainable_variables mg) (num_classes reader) of
        Inl e \<Rightarrow> Inl e
      | Inr parameters \<Rightarrow>
      case result_predictions r of
        None \<Rightarrow> Inl (KeyError ''predictions'')
      | Some predictions0 \<Rightarrow>
      case flatten_frames predictions0 labels_batch0 of
        Inl e \<Rightarrow> Inl e
      | Inr (predictions, labels_batch) \<Rightarrow>
      let bottle_neck = (case result_bottleneck r of Some b \<Rightarrow> b | None \<Rightarrow> Const 0);
          predictions_class = (case result_predictions_class r of Some p \<Rightarrow> p | None \<Rightarrow> predictions);
          sparse_loss = (case result_loss_sparse r of Some s \<Rightarrow> s | None \<Rightarrow> Const 0);
          label_loss = select_label_loss r label_loss_fn predictions predictions_class labels_batch;
          reg_loss0 = (case result_regularization_loss r of Some l \<Rightarrow> l | None \<Rightarrow> Const 0);
          reg_losses = regularization_losses mg;
          reg_loss = (if reg_losses \<noteq> [] then Add reg_loss0 (AddN reg_losses) else reg_loss0);
          update_ops = UPDATE_OPS mg @ (case result_update_ops r of Some u \<Rightarrow> u | None \<Rightarrow> []);
          label_loss' = (if update_ops \<noteq> [] then Identity label_loss update_ops else label_loss);
          final_loss = Add (Add (Mul (Const regularization_penalty) reg_loss) label_loss') sparse_loss;
          grad_updates = ApplyGradients final_loss optimizer global_step clip_gradient_norm;
          train_op = TrainOp final_loss optimizer global_step clip_gradient_norm
      in
      Inr \<lparr> collections =
              (add_to_collection ''parameters'' (ListItem parameters)
              (add_to_collection ''train_op'' (TensorItem train_op)
              (add_to_collection ''labels'' (TensorItem (Cast labels_batch))
              (add_to_collection ''num_frames'' (TensorItem num_frames)
              (add_to_collection ''input_batch_raw'' (TensorItem model_input_raw)
              (add_to_collection ''predictions'' (TensorItem predictions)
              (add_to_collection ''bottleneck'' (TensorItem bottle_neck)
              (add_to_collection ''reg_loss'' (TensorItem reg_loss)
              (add_to_collection ''loss'' (TensorItem final_loss)
              (add_to_collection ''global_step'' (TensorItem global_step)
                 ((\<lambda>name. [])
                    (''train_op'' := [TensorItem grad_updates, TensorItem train_op])))))))))))),
            summaries =
              [(''learning_rate'', learning_rate), (''model/input_raw'', model_input_raw)] @
              map (\<lambda>(name, shape). (op_name name, Variable name shape)) (model_variables mg) @
              [(''label_loss'', label_loss)] @
              (if regularization_penalty \<noteq> 0 then [(''reg_loss'', reg_loss)] else []),
            pipeline = Some input,
            variables_placed = False \<rparr>)"

section \<open>Durable storage and the log\<close>

text \<open>
  The state the run changes: the files on durable storage, the log, and the monitoring
  events written by the master (tag and step). A log record keeps the call as made:
  severity, format string, arguments.
\<close>

datatype severity = INFO | ERROR

datatype log_arg = StrArg string | ClusterArg ClusterSpec

record world =
  files :: "string list"
  log_records :: "(severity \<times> string \<times> log_arg list) list"
  summary_events :: "(string \<times> int) list"

definition logging_info :: "string \<Rightarrow> log_arg list \<Rightarrow> world \<Rightarrow> world" where
  "logging_info fmt args w = w\<lparr> log_records := log_records w @ [(INFO, fmt, args)] \<rparr>"

definition logging_error :: "string \<Rightarrow> log_arg list \<Rightarrow> world \<Rightarrow> world" where
  "logging_error fmt args w = w\<lparr> log_records := log_records w @ [(ERROR, fmt, args)] \<rparr>"

text \<open>A path lies in a directory when it extends the directory's name and a slash.\<close>

definition in_directory :: "string \<Rightarrow> string \<Rightarrow> bool" where
  "in_directory dirname path =
     prefix (if dirname \<noteq> [] \<and> last dirname = CHR ''/'' then dirname else dirname @ ''/'') path"

text \<open>
  \<open>gfile.DeleteRecursively\<close> removes the directory and everything in it. When it fails it
  raises, and what it has removed by then stays removed: any part of the directory may be
  left, the part the environment names. Nothing outside the directory is touched.
\<close>

definition DeleteRecursively :: "env \<Rightarrow> string \<Rightarrow> world \<Rightarrow> error option \<times> world" where
  "DeleteRecursively env dirname w =
     (if delete_error env dirname
      then (Some (OtherError ''DeleteRecursively''),
            w\<lparr> files := filter (\<lambda>path. in_directory dirname path \<longrightarrow> left_behind env path)
                               (files w) \<rparr>)
      else (None, w\<lparr> files := filter (\<lambda>path. \<not> in_directory dirname path) (files w) \<rparr>))"

text \<open>\<open>gfile.Exists\<close> tests a path.\<close>

definition Exists :: "world \<Rightarrow> string \<Rightarrow> bool" where
  "Exists w path = (path \<in> set (files w))"

text \<open>
  \<open>np.savetxt\<close> opens the file and then converts the value to an array, which must have
  one or two dimensions. A fetched tensor is an array of the tensor's shape. A fetched
  list of tensors becomes an array only when all its elements have the same shape, with
  one dimension more than they have; otherwise, and when the dimensions are too many,
  \<open>np.savetxt\<close> raises, and the file it has opened stays behind, empty.
\<close>

fun savetxt_accepts :: "collection_item \<Rightarrow> bool" where
  "savetxt_accepts (TensorItem t) = (length (get_shape t) \<le> 2)"
| "savetxt_accepts (ListItem []) = True"
| "savetxt_accepts (ListItem (t # ts)) =
     (list_all (\<lambda>u. get_shape u = get_shape t) ts \<and> length (get_shape t) \<le> 1)"

definition savetxt :: "string \<Rightarrow> collection_item \<Rightarrow> world \<Rightarrow> error option \<times> world" where
  "savetxt fname X w =
     (if savetxt_accepts X then (None, w\<lparr> files := files w @ [fname] \<rparr>)
      else (Some SavetxtError, w\<lparr> files := files w @ [fname] \<rparr>))"

section \<open>The methods of the Trainer\<close>

text \<open>
  \<open>remove_training_directory\<close>: the bare \<open>except\<close> turns any failure of the deletion into an
  error record in the log; the method itself always returns.
\<close>

definition remove_training_directory :: "env \<Rightarrow> Trainer \<Rightarrow> string \<Rightarrow> world \<Rightarrow> world" where
  "remove_training_directory env self train_dir w =
     (let w1 = logging_info ''%s: Removing existing train directory.''
                 [StrArg (task_as_string (self_task self))] w
      in case DeleteRecursively env train_dir w1 of
           (None, w2) \<Rightarrow> w2
         | (Some e, w2) \<Rightarrow>
             logging_error (''%s: Failed to delete directory '' @ train_dir @
                 '' when starting a new model. Please delete it manually and'' @
                 '' try again.'')
               [StrArg (task_as_string (self_task self))] w2)"

text \<open>
  \<open>get_meta_filename\<close>: \<open>None\<close> means that a new model is built. A checkpoint path that is
  \<open>None\<close> or empty is falsy.
\<close>

definition get_meta_filename ::
  "env \<Rightarrow> Trainer \<Rightarrow> bool \<Rightarrow> string \<Rightarrow> world \<Rightarrow> string option \<times> world" where
  "get_meta_filename env self start_new_model train_dir w =
     (if start_new_model
      then (None, logging_info ''%s: Flag 'start_new_model' is set. Building a new model.''
                    [StrArg (task_as_string (self_task self))] w)
      else case latest_checkpoint env train_dir of
             None \<Rightarrow>
               (None, logging_info ''%s: No checkpoint file found. Building a new model.''
                        [StrArg (task_as_string (self_task self))] w)
           | Some checkpoint \<Rightarrow>
               if checkpoint = []
               then (None, logging_info ''%s: No checkpoint file found. Building a new model.''
                             [StrArg (task_as_string (self_task self))] w)
               else let meta_filename = checkpoint @ ''.meta'' in
                    if \<not> Exists w meta_filename
                    then (None, logging_info ''%s: No meta graph file found. Building a new model.''
                                  [StrArg (task_as_string (self_task self))] w)
                    else (Some meta_filename, w))"

text \<open>\<open>start_server\<close>: the server of a task, once its role and index are known to be set.\<close>

record Server =
  server_cluster :: ClusterSpec
  job_name :: string
  task_index :: int

definition start_server :: "ClusterSpec \<Rightarrow> TaskSpec \<Rightarrow> error + Server" where
  "start_server cluster task =
     (if type task = []
      then Inl (ValueError (task_as_string task @ '': The task type must be specified.''))
      else case index task of
             None \<Rightarrow> Inl (ValueError (task_as_string task @ '': The task index must be specified.''))
           | Some i \<Rightarrow> Inr \<lparr> server_cluster = cluster, job_name = type task, task_index = i \<rparr>)"

text \<open>
  \<open>start_server_if_distributed\<close>: the session target and the device function. Without a
  cluster both are the empty string of the source.
\<close>

datatype target = LocalTarget | ServerTarget Server

datatype device_fn = NoDeviceFn | ReplicaDeviceSetter string string ClusterSpec

definition start_server_if_distributed ::
  "Trainer \<Rightarrow> world \<Rightarrow> (error + target \<times> device_fn) \<times> world" where
  "start_server_if_distributed self w =
     (case self_cluster self of
        None \<Rightarrow> (Inr (LocalTarget, NoDeviceFn), w)
      | Some cluster \<Rightarrow>
          if cluster = [] then (Inr (LocalTarget, NoDeviceFn), w)
          else let w1 = logging_info ''%s: Starting trainer within cluster %s.''
                          [StrArg (task_as_string (self_task self)), ClusterArg cluster] w
               in case start_server cluster (self_task self) of
                    Inl e \<Rightarrow> (Inl e, w1)
                  | Inr server \<Rightarrow>
                      (Inr (ServerTarget server,
                            ReplicaDeviceSetter ''/job:ps''
                              (''/job:'' @ type (self_task self) @ ''/task:'' @
                                 str_int (task_index server))
                              cluster),
                       w1))"

text \<open>
  Nodes created inside \<open>with tf.device(device_fn)\<close>: with the device function of a
  cluster every variable gets a device, with the empty string none does.
\<close>

definition with_device :: "device_fn \<Rightarrow> graph \<Rightarrow> graph" where
  "with_device device_fn g = g\<lparr> variables_placed := (device_fn \<noteq> NoDeviceFn) \<rparr>"

definition recover_model :: "env \<Rightarrow> Trainer \<Rightarrow> string \<Rightarrow> world \<Rightarrow> (error + graph) \<times> world" where
  "recover_model env self meta_filename w =
     (import_meta_graph env meta_filename,
      logging_info ''%s: Restoring from meta graph file %s''
        [StrArg (task_as_string (self_task self)), StrArg meta_filename] w)"

text \<open>
  \<open>build_model\<close>: the reader chosen by the flags, the three components looked up by name
  (model and loss are instantiated, the optimizer class is passed on), then the graph.
\<close>

definition build_model :: "env \<Rightarrow> FLAGS \<Rightarrow> Trainer \<Rightarrow> world \<Rightarrow> (error + graph) \<times> world" where
  "build_model env flags self w =
     (let (feature_names, feature_sizes) =
            GetListOfFeatureNamesAndSizes env (FLAGS_feature_names flags) (FLAGS_feature_sizes flags);
          reader =
            (if FLAGS_frame_features flags
             then if FLAGS_frame_only flags
                  then readers env YT8MFrameFeatureOnlyReader feature_names feature_sizes
                  else readers env YT8MFrameFeatureReader feature_names feature_sizes
             else readers env YT8MAggregatedFeatureReader feature_names feature_sizes)
      in
      case find_class_by_name (FLAGS_model flags) [labels_autoencoder env] of
        Inl e \<Rightarrow> (Inl e, w)
      | Inr model_class \<Rightarrow>
      case instantiate model_class of
        Inl e \<Rightarrow> (Inl e, w)
      | Inr model \<Rightarrow>
      case find_class_by_name (FLAGS_label_loss flags) [losses env] of
        Inl e \<Rightarrow> (Inl e, w)
      | Inr loss_class \<Rightarrow>
      case instantiate loss_class of
        Inl e \<Rightarrow> (Inl e, w)
      | Inr label_loss_fn \<Rightarrow>
      case find_class_by_name (FLAGS_optimizer flags) [tf_train env] of
        Inl e \<Rightarrow> (Inl e, w)
      | Inr optimizer_class \<Rightarrow>
      case build_graph env flags reader model (FLAGS_train_data_pattern flags) label_loss_fn
             (FLAGS_batch_size flags) (FLAGS_base_learning_rate flags)
             (FLAGS_learning_rate_decay_examples flags) (FLAGS_learning_rate_decay flags)
             optimizer_class (FLAGS_clip_gradient_norm flags)
             (FLAGS_regularization_penalty flags) (FLAGS_num_readers flags)
             (Some (FLAGS_num_epochs flags)) of
        Inl e \<Rightarrow> (Inl e, w)
      | Inr g \<Rightarrow>
          (Inr g, logging_info ''%s: Built graph.'' [StrArg (task_as_string (self_task self))] w))"

section \<open>The training loop\<close>

text \<open>
  What the master does after each step: one log record and four monitoring events. The
  floating-point values (loss, hit at one, PERR, GAP, examples per second) are not
  represented: the log record keeps the format string up to the step number, and each
  monitoring event its tag and step.
\<close>

definition report_step :: "Trainer \<Rightarrow> int \<Rightarrow> world \<Rightarrow> world" where
  "report_step self global_step_val w =
     (logging_info (''%s: training step '' @ str_int global_step_val)
        [StrArg (task_as_string (self_task self))] w)
     \<lparr> summary_events := summary_events w @
          [(''model/Training_Hit@1'', global_step_val),
           (''model/Training_Perr'', global_step_val),
           (''model/Training_GAP'', global_step_val),
           (''global_step/Examples/Second'', global_step_val)] \<rparr>"

text \<open>
  The \<open>while\<close> loop. Its result is \<open>None\<close> while no event ends it, \<open>Some (Inr ())\<close> when the
  supervisor asks to stop, and \<open>Some (Inl e)\<close> when a step raises \<open>e\<close>.
\<close>

fun training_loop :: "Trainer \<Rightarrow> step_event list \<Rightarrow> world \<Rightarrow> (error + unit) option \<times> world" where
  "training_loop self [] w = (None, w)"
| "training_loop self (ShouldStop # events) w = (Some (Inr ()), w)"
| "training_loop self (StepDone global_step_val # events) w =
     training_loop self events
       (if self_is_master self then report_step self global_step_val w else w)"
| "training_loop self (StepRaises e # events) w = (Some (Inl e), w)"

text \<open>
  The export after the loop, \<open>for i in range(len(params))\<close>: the fetched \<open>parameters\<close> are
  walked with their index, which starts at 0, one file per element. The first element
  that \<open>np.savetxt\<close> rejects ends the export with its exception.
\<close>

fun save_parameters :: "FLAGS \<Rightarrow> nat \<Rightarrow> collection_item list \<Rightarrow> world \<Rightarrow> error option \<times> world" where
  "save_parameters flags i [] w = (None, w)"
| "save_parameters flags i (X # params) w =
     (case savetxt (FLAGS_train_dir flags @ ''autoencoder_layer'' @ str_nat i @ ''.model'') X w of
        (Some e, w') \<Rightarrow> (Some e, w')
      | (None, w') \<Rightarrow> save_parameters flags (Suc i) params w')"

text \<open>The \<open>try\<close> block of the managed session: the loop, and after it the export.\<close>

definition try_block ::
  "env \<Rightarrow> FLAGS \<Rightarrow> Trainer \<Rightarrow> collection_item list \<Rightarrow> world \<Rightarrow> (error + unit) option \<times> world" where
  "try_block env flags self parameters w =
     (case training_loop self (session env) w of
        (None, w2) \<Rightarrow> (None, w2)
      | (Some (Inl e), w2) \<Rightarrow> (Some (Inl e), w2)
      | (Some (Inr _), w2) \<Rightarrow>
          (case save_parameters flags 0 parameters w2 of
             (None, w3) \<Rightarrow> (Some (Inr ()), w3)
           | (Some e, w3) \<Rightarrow> (Some (Inl e), w3)))"

text \<open>
  The body of the managed session: the \<open>try\<close> block with the handler for
  \<open>OutOfRangeError\<close>; any other exception leaves the method.
\<close>

definition managed_session ::
  "env \<Rightarrow> FLAGS \<Rightarrow> Trainer \<Rightarrow> collection_item list \<Rightarrow> world \<Rightarrow> (error + unit) option \<times> world" where
  "managed_session env flags self parameters w =
     (let w1 = logging_info ''%s: Entering training loop.''
                 [StrArg (task_as_string (self_task self))] w
      in case try_block env flags self parameters w1 of
           (Some (Inl e), w2) \<Rightarrow>
             if e = OutOfRangeError
             then (Some (Inr ()),
                   logging_info ''%s: Done training -- epoch limit reached.''
                     [StrArg (task_as_string (self_task self))] w2)
             else (Some (Inl e), w2)
         | other \<Rightarrow> other)"

text \<open>
  The handles \<open>run\<close> reads from the collections: the first element of each, and the whole
  \<open>parameters\<close> collection.
\<close>

record handles =
  handle_global_step :: collection_item
  handle_loss :: collection_item
  handle_reg_loss :: collection_item
  handle_predictions :: collection_item
  handle_labels :: collection_item
  handle_train_op :: collection_item
  handle_parameters :: "collection_item list"

definition get_handles :: "graph \<Rightarrow> error + handles" where
  "get_handles g =
     (case item (collections g ''global_step'') 0 of Inl e \<Rightarrow> Inl e | Inr global_step \<Rightarrow>
      case item (collections g ''loss'') 0 of Inl e \<Rightarrow> Inl e | Inr loss \<Rightarrow>
      case item (collections g ''reg_loss'') 0 of Inl e \<Rightarrow> Inl e | Inr reg_loss \<Rightarrow>
      case item (collections g ''predictions'') 0 of Inl e \<Rightarrow> Inl e | Inr predictions \<Rightarrow>
      case item (collections g ''labels'') 0 of Inl e \<Rightarrow> Inl e | Inr labels \<Rightarrow>
      case item (collections g ''train_op'') 0 of Inl e \<Rightarrow> Inl e | Inr train_op \<Rightarrow>
      Inr \<lparr> handle_global_step = global_step, handle_loss = loss, handle_reg_loss = reg_loss,
            handle_predictions = predictions, handle_labels = labels,
            handle_train_op = train_op, handle_parameters = collections g ''parameters'' \<rparr>)"

text \<open>
  The construction of the supervisor: a trainer that is not the master is a replica, and
  the supervisor of a replica raises \<open>ValueError\<close> unless every variable of the graph has
  its device set.
\<close>

definition Supervisor_init :: "Trainer \<Rightarrow> graph \<Rightarrow> error option" where
  "Supervisor_init self g =
     (if self_is_master self then None
      else if variables_placed g then None
      else Some GraphValueError)"

text \<open>
  \<open>run\<close> after the optional removal of the training directory: server, snapshot lookup,
  graph (restored, or built under the device function), handles, supervisor, session,
  final log record. The managed session itself is taken to start.
\<close>

definition run_training ::
  "env \<Rightarrow> FLAGS \<Rightarrow> Trainer \<Rightarrow> bool \<Rightarrow> world \<Rightarrow> (error + unit) option \<times> world" where
  "run_training env flags self start_new_model w =
     (case start_server_if_distributed self w of
        (Inl e, w1) \<Rightarrow> (Some (Inl e), w1)
      | (Inr (target, device_fn), w1) \<Rightarrow>
      case get_meta_filename env self start_new_model (self_train_dir self) w1 of
        (meta_filename, w2) \<Rightarrow>
      case (case meta_filename of
              Some f \<Rightarrow> recover_model env self f w2
            | None \<Rightarrow>
                (case build_model env flags self w2 of
                   (Inr g, w3) \<Rightarrow> (Inr (with_device device_fn g), w3)
                 | (Inl e, w3) \<Rightarrow> (Inl e, w3))) of
        (Inl e, w3) \<Rightarrow> (Some (Inl e), w3)
      | (Inr g, w3) \<Rightarrow>
      case get_handles g of
        Inl e \<Rightarrow> (Some (Inl e), w3)
      | Inr handles \<Rightarrow>
      case Supervisor_init self g of
        Some e \<Rightarrow> (Some (Inl e), w3)
      | None \<Rightarrow>
      let w4 = logging_info ''%s: Starting managed session.''
                 [StrArg (task_as_string (self_task self))] w3
      in case managed_session env flags self (handle_parameters handles) w4 of
           (Some (Inr _), w5) \<Rightarrow>
             (Some (Inr ()),
              logging_info ''%s: Exited training loop.''
                [StrArg (task_as_string (self_task self))] w5)
         | other \<Rightarrow> other)"

text \<open>\<open>Trainer.run\<close>.\<close>

definition run :: "env \<Rightarrow> FLAGS \<Rightarrow> Trainer \<Rightarrow> bool \<Rightarrow> world \<Rightarrow> (error + unit) option \<times> world" where
  "run env flags self start_new_model w =
     run_training env flags self start_new_model
       (if self_is_master self \<and> start_new_model
        then remove_training_directory env self (self_train_dir self) w
        else w)"

section \<open>The parameter server and the dispatch\<close>

text \<open>
  \<open>ParameterServer.run\<close>: after a successful start the server is joined, which never
  returns; the result is then \<open>None\<close>.
\<close>

definition ParameterServer_run ::
  "ClusterSpec option \<Rightarrow> TaskSpec \<Rightarrow> world \<Rightarrow> (error + unit) option \<times> world" where
  "ParameterServer_run cluster task w =
     (case cluster of
        None \<Rightarrow> (Some (Inl AttributeError), w)
      | Some c \<Rightarrow>
          let w1 = logging_info ''%s: Starting parameter server within cluster %s.''
                     [StrArg (task_as_string task), ClusterArg c] w
          in case start_server c task of
               Inl e \<Rightarrow> (Some (Inl e), w1)
             | Inr server \<Rightarrow> (None, w1))"

text \<open>
  The configuration read from \<open>TF_CONFIG\<close>: the optional \<open>cluster\<close> and \<open>task\<close> entries. The
  branch \<open>main\<close> takes depends on the cluster and the role only.
\<close>

record TF_CONFIG =
  config_cluster :: "ClusterSpec option"
  config_task :: "TaskSpec option"

datatype dispatch = RunTrainer | RunParameterServer | InvalidTaskType

definition main_dispatch :: "ClusterSpec option \<Rightarrow> TaskSpec \<Rightarrow> dispatch" where
  "main_dispatch cluster task =
     (if \<not> cluster_truthy cluster \<or> type task = ''master'' \<or> type task = ''worker''
      then RunTrainer
      else if type task = ''ps'' then RunParameterServer
      else InvalidTaskType)"

definition main :: "env \<Rightarrow> FLAGS \<Rightarrow> TF_CONFIG \<Rightarrow> world \<Rightarrow> (error + unit) option \<times> world" where
  "main env flags config w =
     (let cluster_data = config_cluster config;
          cluster = (if cluster_truthy cluster_data then cluster_data else None);
          task = (case config_task config of
                    None \<Rightarrow> \<lparr> type = ''master'', index = Some 0 \<rparr>
                  | Some task_data \<Rightarrow> task_data);
          w1 = logging_info ''%s: Tensorflow version: %s.''
                 [StrArg (task_as_string task), StrArg (tf_version env)] w
      in case main_dispatch cluster task of
           RunTrainer \<Rightarrow>
             (case Trainer_init cluster task (FLAGS_train_dir flags)
                     (FLAGS_log_device_placement flags) of
                Inl e \<Rightarrow> (Some (Inl e), w1)
              | Inr trainer \<Rightarrow> run env flags trainer (FLAGS_start_new_model flags) w1)
         | RunParameterServer \<Rightarrow> ParameterServer_run cluster task w1
         | InvalidTaskType \<Rightarrow>
             (Some (Inl (ValueError (task_as_string task @ '': Invalid task_type: '' @
                                      type task @ ''.''))), w1))"

section \<open>A sample configuration\<close>

text \<open>
  A concrete run for the closed statements below: the default flags of the binary with a
  model named \<open>LabelsAutoencoder\<close>, one training file, a model with the four named layers,
  and a training directory that holds one file of an earlier run and no checkpoint.
\<close>

definition sample_flags :: FLAGS where
  "sample_flags =
     \<lparr> FLAGS_train_dir = ''/tmp/yt8m_model/'',
       FLAGS_train_data_pattern = ''train*.tfrecord'',
       FLAGS_feature_names = ''mean_rgb'',
       FLAGS_feature_sizes = ''1024'',
       FLAGS_frame_features = False,
       FLAGS_frame_only = False,
       FLAGS_model = ''LabelsAutoencoder'',
       FLAGS_start_new_model = False,
       FLAGS_batch_size = 1024,
       FLAGS_label_loss = ''CrossEntropyLoss'',
       FLAGS_regularization_penalty = 1,
       FLAGS_base_learning_rate = 1 / 1000,
       FLAGS_learning_rate_decay = 95 / 100,
       FLAGS_learning_rate_decay_examples = 4000000,
       FLAGS_num_epochs = 5,
       FLAGS_num_readers = 8,
       FLAGS_optimizer = ''AdamOptimizer'',
       FLAGS_clip_gradient_norm = 1 / 10,
       FLAGS_log_device_placement = False,
       FLAGS_hidden_size_1 = 100,
       FLAGS_hidden_size_2 = 50 \<rparr>"

definition sample_reader :: reader where
  "sample_reader =
     \<lparr> reader_kind = YT8MAggregatedFeatureReader,
       reader_feature_names = [''mean_rgb''],
       reader_feature_sizes = [1024],
       num_classes = 4716,
       batch_tensors = (External ''video_id'' [1024], External ''model_input_raw'' [1024, 1024],
                        External ''labels'' [1024, 4716], External ''num_frames'' [1024]) \<rparr>"

definition sample_model_graph :: model_graph where
  "sample_model_graph =
     \<lparr> result =
         \<lparr> result_predictions = Some (External ''predictions'' [1024, 4716]),
           result_bottleneck = None,
           result_predictions_class = Some (External ''predictions_class'' [1024, 25]),
           result_loss_sparse = None,
           result_loss = None,
           result_regularization_loss = None,
           result_update_ops = None \<rparr>,
       trainable_variables =
         [(''model/hidden_1/weights:0'', [4716, 100]), (''model/hidden_1/biases:0'', [100]),
          (''model/hidden_2/weights:0'', [100, 50]), (''model/hidden_2/biases:0'', [50]),
          (''model/output_1/weights:0'', [50, 100]), (''model/output_1/biases:0'', [100]),
          (''model/output_2/weights:0'', [100, 4716]), (''model/output_2/biases:0'', [4716])],
       model_variables = [],
       regularization_losses = [],
       UPDATE_OPS = [] \<rparr>"

text \<open>
  Two more models for the sample environment: one whose result carries its own \<open>loss\<close>
  beside the second head, and one whose result carries the predictions only.
\<close>

definition sample_own_loss_graph :: model_graph where
  "sample_own_loss_graph =
     sample_model_graph
       \<lparr> result := (result sample_model_graph) \<lparr> result_loss := Some (External ''loss'' []) \<rparr> \<rparr>"

definition sample_plain_graph :: model_graph where
  "sample_plain_graph =
     sample_model_graph
       \<lparr> result := (result sample_model_graph) \<lparr> result_predictions_class := None \<rparr> \<rparr>"

definition sample_env :: "step_event list \<Rightarrow> env" where
  "sample_env events =
     \<lparr> Glob = (\<lambda>pattern. if pattern = ''train*.tfrecord'' then [''train00.tfrecord''] else []),
       delete_error = (\<lambda>dirname. False),
       left_behind = (\<lambda>path. False),
       latest_checkpoint = (\<lambda>dirname. None),
       import_meta_graph = (\<lambda>filename. Inl (OtherError ''NotFoundError'')),
       GetListOfFeatureNamesAndSizes = (\<lambda>names sizes. ([''mean_rgb''], [1024])),
       readers = (\<lambda>kind names sizes. sample_reader),
       labels_autoencoder =
         [''LabelsAutoencoder'' \<mapsto> PyClass ''LabelsAutoencoder'' [''BaseModel'', ''object''],
          ''OwnLossAutoencoder'' \<mapsto> PyClass ''OwnLossAutoencoder'' [''BaseModel'', ''object''],
          ''PlainAutoencoder'' \<mapsto> PyClass ''PlainAutoencoder'' [''BaseModel'', ''object'']],
       losses = [''CrossEntropyLoss'' \<mapsto> PyClass ''CrossEntropyLoss'' [''BaseLoss'', ''object'']],
       tf_train = [''AdamOptimizer'' \<mapsto> PyClass ''AdamOptimizer'' [''Optimizer'', ''object'']],
       create_model =
         (\<lambda>model model_input num_frames vocab_size labels.
            if model = PyClass ''OwnLossAutoencoder'' [''BaseModel'', ''object'']
            then sample_own_loss_graph
            else if model = PyClass ''PlainAutoencoder'' [''BaseModel'', ''object'']
            then sample_plain_graph
            else sample_model_graph),
       tf_version = ''1.0.0'',
       session = events \<rparr>"

definition sample_trainer :: Trainer where
  "sample_trainer =
     \<lparr> self_cluster = None,
       self_task = \<lparr> type = ''master'', index = Some 0 \<rparr>,
       self_is_master = True,
       self_train_dir = ''/tmp/yt8m_model/'',
       self_config = False \<rparr>"

definition sample_world :: world where
  "sample_world =
     \<lparr> files = [''/tmp/yt8m_model/events.out.tfevents''], log_records = [], summary_events = [] \<rparr>"

section \<open>Properties of the constructor\<close>

lemma Trainer_init_total:
  "Trainer_init cl tk dir ldp =
     Inr \<lparr> self_cluster = cl, self_task = tk,
           self_is_master = (type tk = ''master'' \<and> index tk = Some 0),
           self_train_dir = dir, self_config = ldp \<rparr>"
  by (auto simp: Trainer_init_def Let_def py_eq_def py_gt_def)

text \<open>
  Claim C1. A master task with a strictly positive index should make the constructor raise.
  The guard of the source reads \<open>is_master\<close>, which already requires index 0, so it can
  never fire: the master replica with index 1 is constructed without error, as a
  non-master trainer.
\<close>

theorem C1_master_index_one_constructs:
  "Trainer_init None \<lparr> type = ''master'', index = Some 1 \<rparr> ''/tmp/yt8m_model/'' False =
     Inr \<lparr> self_cluster = None, self_task = \<lparr> type = ''master'', index = Some 1 \<rparr>,
           self_is_master = False, self_train_dir = ''/tmp/yt8m_model/'',
           self_config = False \<rparr>"
  by (simp add: Trainer_init_def Let_def py_eq_def py_gt_def)

section \<open>Properties of the component lookup\<close>

text \<open>
  \<open>validate_class_name\<close> never returns its error of configuration: both \<open>raise\<close> statements
  look up \<open>flags.FlagsError\<close>, which the flags module does not have, so that the function
  ends in \<open>AttributeError\<close> in the two cases it means to report.
\<close>

lemma validate_candidates_find:
  "validate_candidates flag_value category expected candidates =
     (case List.find truthy candidates of
        None \<Rightarrow> Inl AttributeError
      | Some candidate \<Rightarrow>
          (case issubclass candidate expected of
             Inl e \<Rightarrow> Inl e
           | Inr sub \<Rightarrow> if \<not> sub then Inl AttributeError else Inr True))"
  by (induction candidates) simp_all

lemma validate_class_name_raises:
  "(List.find truthy (map (\<lambda>m. getattr m name PyNone) modules) = Some (PyClass c supers) \<and>
      c \<noteq> expected \<and> expected \<notin> set supers \<longrightarrow>
        validate_class_name name category modules expected = Inl AttributeError) \<and>
   ((\<forall>m \<in> set modules. \<not> truthy (getattr m name PyNone)) \<longrightarrow>
        validate_class_name name category modules expected = Inl AttributeError)"
proof (intro conjI impI)
  assume "List.find truthy (map (\<lambda>m. getattr m name PyNone) modules) =
      Some (PyClass c supers) \<and> c \<noteq> expected \<and> expected \<notin> set supers"
  then show "validate_class_name name category modules expected = Inl AttributeError"
    by (simp add: validate_class_name_def validate_candidates_find)
next
  assume "\<forall>m \<in> set modules. \<not> truthy (getattr m name PyNone)"
  then have "List.find truthy (map (\<lambda>m. getattr m name PyNone) modules) = None"
    by (simp add: find_None_iff)
  then show "validate_class_name name category modules expected = Inl AttributeError"
    by (simp add: validate_class_name_def validate_candidates_find)
qed

text \<open>
  Claim C3, as amended. The lookup used at startup, \<open>find_class_by_name\<close>, checks no
  family: when the first truthy attribute of that name among the candidate modules is a
  class outside the required family (neither that class nor one of its subclasses), the
  lookup returns this very class; and when no candidate module has a truthy attribute of
  that name it raises \<open>StopIteration\<close>, which names nothing.
\<close>

theorem C3_lookup_by_name:
  "(List.find truthy (map (\<lambda>m. getattr m name PyNone) modules) = Some (PyClass c supers) \<and>
      c \<noteq> expected \<and> expected \<notin> set supers \<longrightarrow>
        find_class_by_name name modules = Inr (PyClass c supers)) \<and>
   ((\<forall>m \<in> set modules. \<not> truthy (getattr m name PyNone)) \<longrightarrow>
        find_class_by_name name modules = Inl StopIteration)"
proof (intro conjI impI)
  assume "List.find truthy (map (\<lambda>m. getattr m name PyNone) modules) =
      Some (PyClass c supers) \<and> c \<noteq> expected \<and> expected \<notin> set supers"
  then show "find_class_by_name name modules = Inr (PyClass c supers)"
    by (simp add: find_class_by_name_def)
next
  assume "\<forall>m \<in> set modules. \<not> truthy (getattr m name PyNone)"
  then have "List.find truthy (map (\<lambda>m. getattr m name PyNone) modules) = None"
    by (simp add: find_None_iff)
  then show "find_class_by_name name modules = Inl StopIteration"
    by (simp add: find_class_by_name_def)
qed

text \<open>
  The lookup on two modules of which the second defines the name, and on two modules
  that do not define it.
\<close>

theorem C3_lookup_by_name_witness:
  "find_class_by_name ''LabelsAutoencoder''
      [Map.empty, [''LabelsAutoencoder'' \<mapsto> PyClass ''LabelsAutoencoder'' [''object'']]] =
     Inr (PyClass ''LabelsAutoencoder'' [''object'']) \<and>
   find_class_by_name ''LabelsAutoencoder'' [Map.empty, Map.empty] = Inl StopIteration"
  using C3_lookup_by_name [of "''LabelsAutoencoder''"
          "[Map.empty, [''LabelsAutoencoder'' \<mapsto> PyClass ''LabelsAutoencoder'' [''object'']]]"
          "''LabelsAutoencoder''" "[''object'']" "''BaseModel''"]
        C3_lookup_by_name [of "''LabelsAutoencoder''" "[Map.empty, Map.empty]"
          "''LabelsAutoencoder''" "[''object'']" "''BaseModel''"]
  by (simp add: getattr_def)

text \<open>
  Against claim C3 as stated: for a class \<open>LabelsAutoencoder\<close> that inherits from \<open>object\<close>
  only, which is not a subclass of \<open>BaseModel\<close>, the startup lookup succeeds and returns the
  class; and for a name that no module defines the error is \<open>StopIteration\<close>.
\<close>

theorem C3_startup_lookup_counterexample:
  "find_class_by_name ''LabelsAutoencoder''
      [[''LabelsAutoencoder'' \<mapsto> PyClass ''LabelsAutoencoder'' [''object'']]] =
     Inr (PyClass ''LabelsAutoencoder'' [''object'']) \<and>
   issubclass (PyClass ''LabelsAutoencoder'' [''object'']) ''BaseModel'' = Inr False \<and>
   find_class_by_name ''LabelsAutoencoder'' [Map.empty] = Inl StopIteration"
  by (simp add: find_class_by_name_def getattr_def)

section \<open>Properties of graph construction\<close>

text \<open>
  Claim C5. When the pattern matches no file, \<open>get_input_data_tensors\<close> raises \<open>IOError\<close>
  with the message that quotes the pattern; \<open>build_graph\<close> then returns no graph, hence no
  input pipeline, whatever its other arguments are, and it is this \<open>IOError\<close> that it raises
  when the optimizer class is a class (the call of the optimizer class comes first).
  When the pattern matches a file, \<open>get_input_data_tensors\<close> raises no \<open>IOError\<close>.
\<close>

theorem C5_empty_glob_is_io_error:
  "(Glob env data_pattern = [] \<longrightarrow>
      get_input_data_tensors env flags reader data_pattern batch_size num_epochs num_readers =
        Inl (IOError (''Unable to find training files. data_pattern='' @
               CHR 0x27 # data_pattern @ CHR 0x27 # ''.'')) \<and>
      (\<forall>g. build_graph env flags reader model data_pattern label_loss_fn batch_size
              base_learning_rate learning_rate_decay_examples learning_rate_decay
              optimizer_class clip_gradient_norm regularization_penalty num_readers
              num_epochs \<noteq> Inr g) \<and>
      (\<forall>c supers. optimizer_class = PyClass c supers \<longrightarrow>
         build_graph env flags reader model data_pattern label_loss_fn batch_size
           base_learning_rate learning_rate_decay_examples learning_rate_decay optimizer_class
           clip_gradient_norm regularization_penalty num_readers num_epochs =
         Inl (IOError (''Unable to find training files. data_pattern='' @
                CHR 0x27 # data_pattern @ CHR 0x27 # ''.'')))) \<and>
   (Glob env data_pattern \<noteq> [] \<longrightarrow>
      (\<forall>message. get_input_data_tensors env flags reader data_pattern batch_size num_epochs
                   num_readers \<noteq> Inl (IOError message)))"
proof (intro conjI impI allI)
  assume "Glob env data_pattern = []"
  then show "get_input_data_tensors env flags reader data_pattern batch_size num_epochs
        num_readers =
        Inl (IOError (''Unable to find training files. data_pattern='' @
               CHR 0x27 # data_pattern @ CHR 0x27 # ''.''))"
    by (simp add: get_input_data_tensors_def Let_def)
next
  fix g
  assume "Glob env data_pattern = []"
  then show "build_graph env flags reader model data_pattern label_loss_fn batch_size
              base_learning_rate learning_rate_decay_examples learning_rate_decay
              optimizer_class clip_gradient_norm regularization_penalty num_readers
              num_epochs \<noteq> Inr g"
    by (cases "instantiate optimizer_class")
       (simp_all add: build_graph_def get_input_data_tensors_def Let_def)
next
  fix c supers
  assume "Glob env data_pattern = []" and "optimizer_class = PyClass c supers"
  then show "build_graph env flags reader model data_pattern label_loss_fn batch_size
           base_learning_rate learning_rate_decay_examples learning_rate_decay optimizer_class
           clip_gradient_norm regularization_penalty num_readers num_epochs =
         Inl (IOError (''Unable to find training files. data_pattern='' @
                CHR 0x27 # data_pattern @ CHR 0x27 # ''.''))"
    by (simp add: build_graph_def get_input_data_tensors_def Let_def)
next
  fix message
  assume "Glob env data_pattern \<noteq> []"
  then show "get_input_data_tensors env flags reader data_pattern batch_size num_epochs
                   num_readers \<noteq> Inl (IOError message)"
    by (simp add: get_input_data_tensors_def Let_def)
qed

text \<open>
  The sample environment has one file for \<open>train*.tfrecord\<close> and none for
  \<open>validate*.tfrecord\<close>.
\<close>

theorem C5_empty_glob_is_io_error_witness:
  "get_input_data_tensors (sample_env []) sample_flags sample_reader ''validate*.tfrecord'' 1024
     (Some 5) 8 =
     Inl (IOError ''Unable to find training files. data_pattern='validate*.tfrecord'.'') \<and>
   build_graph (sample_env []) sample_flags sample_reader
     (PyClass ''LabelsAutoencoder'' [''BaseModel'', ''object'']) ''validate*.tfrecord''
     (PyClass ''CrossEntropyLoss'' [''BaseLoss'', ''object'']) 1024 (1 / 1000) 4000000 (95 / 100)
     (PyClass ''AdamOptimizer'' [''Optimizer'', ''object'']) (1 / 10) 1 8 (Some 5) =
     Inl (IOError ''Unable to find training files. data_pattern='validate*.tfrecord'.'') \<and>
   (\<forall>message. get_input_data_tensors (sample_env []) sample_flags sample_reader
                ''train*.tfrecord'' 1024 (Some 5) 8 \<noteq> Inl (IOError message))"
proof -
  have none: "Glob (sample_env []) ''validate*.tfrecord'' = []"
    and some: "Glob (sample_env []) ''train*.tfrecord'' \<noteq> []"
    by (simp_all add: sample_env_def)
  note empty = C5_empty_glob_is_io_error
    [of "sample_env []" "''validate*.tfrecord''" sample_flags sample_reader 1024 "Some 5" 8
       "PyClass ''LabelsAutoencoder'' [''BaseModel'', ''object'']"
       "PyClass ''CrossEntropyLoss'' [''BaseLoss'', ''object'']" "1 / 1000" 4000000 "95 / 100"
       "PyClass ''AdamOptimizer'' [''Optimizer'', ''object'']" "1 / 10" 1,
     THEN conjunct1, THEN mp, OF none]
  note matched = C5_empty_glob_is_io_error
    [of "sample_env []" "''train*.tfrecord''" sample_flags sample_reader 1024 "Some 5" 8
       "PyClass ''LabelsAutoencoder'' [''BaseModel'', ''object'']"
       "PyClass ''CrossEntropyLoss'' [''BaseLoss'', ''object'']" "1 / 1000" 4000000 "95 / 100"
       "PyClass ''AdamOptimizer'' [''Optimizer'', ''object'']" "1 / 10" 1,
     THEN conjunct2, THEN mp, OF some]
  from empty have input: "get_input_data_tensors (sample_env []) sample_flags sample_reader
      ''validate*.tfrecord'' 1024 (Some 5) 8 =
     Inl (IOError ''Unable to find training files. data_pattern='validate*.tfrecord'.'')"
    by simp
  from empty have graph: "build_graph (sample_env []) sample_flags sample_reader
     (PyClass ''LabelsAutoencoder'' [''BaseModel'', ''object'']) ''validate*.tfrecord''
     (PyClass ''CrossEntropyLoss'' [''BaseLoss'', ''object'']) 1024 (1 / 1000) 4000000 (95 / 100)
     (PyClass ''AdamOptimizer'' [''Optimizer'', ''object'']) (1 / 10) 1 8 (Some 5) =
     Inl (IOError ''Unable to find training files. data_pattern='validate*.tfrecord'.'')"
    by simp
  from input graph matched show ?thesis by (intro conjI)
qed

text \<open>
  The two steps of a block of \<open>get_forward_parameters\<close>: what they return, and which errors
  they raise.
\<close>

lemma item_0: "item xs 0 = (case xs of [] \<Rightarrow> Inl IndexError | x # _ \<Rightarrow> Inr x)"
  by (cases xs) (simp_all add: item_def)

lemma reshape_ok_row: "reshape_ok n [1, w] \<longleftrightarrow> w = - 1 \<or> w = int n"
  by (auto simp: reshape_ok_def Let_def)

lemma reshape_shape_row:
  "w = - 1 \<or> w = int n \<Longrightarrow> reshape_shape n [1, w] = [1, n]"
  by (auto simp: reshape_shape_def)

lemma reshaped_bias_cases:
  "reshaped_bias biases width =
     (case biases of
        [] \<Rightarrow> Inl IndexError
      | (name, shape) # _ \<Rightarrow>
          if width = - 1 \<or> width = int (prod_list shape)
          then Inr (Reshape (Variable name shape) [1, width])
          else Inl GraphValueError)"
  by (auto simp: reshaped_bias_def item_0 tf_reshape_def reshape_ok_row split: list.splits)

lemma weights_over_bias_cases:
  assumes "width = - 1 \<or> width = int (prod_list bias_shape)"
  shows "weights_over_bias weights (Reshape (Variable bias_name bias_shape) [1, width]) =
     (case weights of
        [] \<Rightarrow> Inl IndexError
      | (name, shape) # _ \<Rightarrow>
          if length shape = 2 \<and> shape ! 1 = prod_list bias_shape
          then Inr (Concat (Variable name shape) (Reshape (Variable bias_name bias_shape) [1, width]))
          else Inl GraphValueError)"
proof (cases weights)
  case Nil
  then show ?thesis by (simp add: weights_over_bias_def item_0)
next
  case (Cons v rest)
  obtain name shape where v: "v = (name, shape)" by (cases v)
  have row: "get_shape (Reshape (Variable bias_name bias_shape) [1, width]) = [1, prod_list bias_shape]"
    using assms by (simp add: reshape_shape_row)
  show ?thesis
  proof (cases shape)
    case Nil
    with Cons v row show ?thesis by (simp add: weights_over_bias_def item_0 tf_concat_def)
  next
    case (Cons m cols)
    with \<open>weights = v # rest\<close> v row show ?thesis
      by (cases cols; cases "tl cols")
         (auto simp: weights_over_bias_def item_0 tf_concat_def)
  qed
qed

lemma reshaped_bias_error:
  "reshaped_bias biases width = Inl e \<Longrightarrow> e = IndexError \<or> e = GraphValueError"
  by (auto simp: reshaped_bias_cases split: list.splits if_splits)

lemma reshaped_bias_Inr:
  "reshaped_bias biases width = Inr b \<Longrightarrow>
     \<exists>name shape rest. biases = (name, shape) # rest \<and>
       (width = - 1 \<or> width = int (prod_list shape)) \<and>
       b = Reshape (Variable name shape) [1, width]"
  by (auto simp: reshaped_bias_cases split: list.splits if_splits)

lemma weights_over_bias_error:
  "weights_over_bias weights bias = Inl e \<Longrightarrow> e = IndexError \<or> e = GraphValueError"
  by (auto simp: weights_over_bias_def item_0 tf_concat_def
           split: list.splits if_splits prod.splits)

lemma weights_over_bias_Inr:
  "weights_over_bias weights bias = Inr t \<Longrightarrow> weights \<noteq> []"
  by (auto simp: weights_over_bias_def item_0)

lemma get_forward_parameters_error:
  "get_forward_parameters flags t_vars vocab_size = Inl e \<Longrightarrow>
     e = IndexError \<or> e = GraphValueError"
  unfolding get_forward_parameters_def Let_def
  by (auto split: sum.splits dest: reshaped_bias_error weights_over_bias_error)

lemma get_forward_parameters_Inr:
  assumes "get_forward_parameters flags t_vars vocab_size = Inr ps"
  shows "vars_named ''hidden_1'' ''weights'' t_vars \<noteq> [] \<and>
         vars_named ''hidden_1'' ''biases'' t_vars \<noteq> [] \<and>
         vars_named ''hidden_2'' ''weights'' t_vars \<noteq> [] \<and>
         vars_named ''hidden_2'' ''biases'' t_vars \<noteq> [] \<and>
         vars_named ''output_1'' ''weights'' t_vars \<noteq> [] \<and>
         vars_named ''output_1'' ''biases'' t_vars \<noteq> [] \<and>
         vars_named ''output_2'' ''weights'' t_vars \<noteq> [] \<and>
         vars_named ''output_2'' ''biases'' t_vars \<noteq> []"
  using assms unfolding get_forward_parameters_def Let_def
  by (auto split: sum.splits dest!: reshaped_bias_Inr weights_over_bias_Inr)

lemma block_fit:
  assumes "block_shapes_fit weights biases width"
  shows "reshaped_bias biases width =
           Inr (Reshape (Variable (fst (hd biases)) (snd (hd biases))) [1, width])"
    and "weights_over_bias weights (Reshape (Variable (fst (hd biases)) (snd (hd biases))) [1, width]) =
           Inr (Concat (Variable (fst (hd weights)) (snd (hd weights)))
                  (Reshape (Variable (fst (hd biases)) (snd (hd biases))) [1, width]))"
proof -
  from assms obtain wn ws wrest bn bs brest where
    lists: "weights = (wn, ws) # wrest" "biases = (bn, bs) # brest"
    by (cases weights; cases biases) (auto simp: block_shapes_fit_def)
  from assms lists have width: "width = - 1 \<or> width = int (prod_list bs)"
    and cols: "length ws = 2 \<and> ws ! 1 = prod_list bs"
    by (simp_all add: block_shapes_fit_def)
  from lists width show "reshaped_bias biases width =
           Inr (Reshape (Variable (fst (hd biases)) (snd (hd biases))) [1, width])"
    by (simp add: reshaped_bias_cases)
  from lists cols weights_over_bias_cases [OF width, of weights bn]
  show "weights_over_bias weights (Reshape (Variable (fst (hd biases)) (snd (hd biases))) [1, width]) =
           Inr (Concat (Variable (fst (hd weights)) (snd (hd weights)))
                  (Reshape (Variable (fst (hd biases)) (snd (hd biases))) [1, width]))"
    by simp
qed

lemma block_unfit:
  assumes "weights \<noteq> []" and "biases \<noteq> []" and unfit: "\<not> block_shapes_fit weights biases width"
  shows "reshaped_bias biases width = Inl GraphValueError \<or>
         (reshaped_bias biases width =
            Inr (Reshape (Variable (fst (hd biases)) (snd (hd biases))) [1, width]) \<and>
          weights_over_bias weights
            (Reshape (Variable (fst (hd biases)) (snd (hd biases))) [1, width]) =
            Inl GraphValueError)"
proof -
  from assms obtain wn ws wrest bn bs brest where
    lists: "weights = (wn, ws) # wrest" "biases = (bn, bs) # brest"
    by (cases weights; cases biases) auto
  show ?thesis
  proof (cases "width = - 1 \<or> width = int (prod_list bs)")
    case False
    with lists show ?thesis by (simp add: reshaped_bias_cases)
  next
    case True
    with lists unfit have cols: "\<not> (length ws = 2 \<and> ws ! 1 = prod_list bs)"
      by (simp add: block_shapes_fit_def)
    from lists True have "reshaped_bias biases width =
            Inr (Reshape (Variable (fst (hd biases)) (snd (hd biases))) [1, width])"
      by (simp add: reshaped_bias_cases)
    moreover from lists cols weights_over_bias_cases [OF True, of weights bn]
    have "weights_over_bias weights
            (Reshape (Variable (fst (hd biases)) (snd (hd biases))) [1, width]) =
            Inl GraphValueError"
      by simp
    ultimately show ?thesis by simp
  qed
qed

lemma reshaped_bias_IndexError:
  "reshaped_bias biases width = Inl IndexError \<Longrightarrow> biases = []"
  by (auto simp: reshaped_bias_cases split: list.splits if_splits)

lemma weights_over_bias_IndexError:
  "weights_over_bias weights bias = Inl IndexError \<Longrightarrow> weights = []"
  by (auto simp: weights_over_bias_def item_0 tf_concat_def
           split: list.splits if_splits prod.splits)

lemma get_forward_parameters_IndexError:
  assumes "get_forward_parameters flags t_vars vocab_size = Inl IndexError"
  shows "vars_named ''hidden_1'' ''weights'' t_vars = [] \<or>
         vars_named ''hidden_1'' ''biases'' t_vars = [] \<or>
         vars_named ''hidden_2'' ''weights'' t_vars = [] \<or>
         vars_named ''hidden_2'' ''biases'' t_vars = [] \<or>
         vars_named ''output_1'' ''weights'' t_vars = [] \<or>
         vars_named ''output_1'' ''biases'' t_vars = [] \<or>
         vars_named ''output_2'' ''weights'' t_vars = [] \<or>
         vars_named ''output_2'' ''biases'' t_vars = []"
  using assms unfolding get_forward_parameters_def Let_def
  by (auto split: sum.splits dest: reshaped_bias_IndexError weights_over_bias_IndexError)

lemma block_Inr_fit:
  assumes "reshaped_bias biases width = Inr b" and "weights_over_bias weights b = Inr t"
  shows "block_shapes_fit weights biases width"
proof -
  from assms(1) obtain bn bs brest where
    biases: "biases = (bn, bs) # brest"
    and width: "width = - 1 \<or> width = int (prod_list bs)"
    and b: "b = Reshape (Variable bn bs) [1, width]"
    by (auto dest: reshaped_bias_Inr)
  from assms(2) b weights_over_bias_cases [OF width, of weights bn]
  obtain wn ws wrest where "weights = (wn, ws) # wrest" "length ws = 2 \<and> ws ! 1 = prod_list bs"
    by (cases weights) (auto split: if_splits)
  with biases width show ?thesis by (simp add: block_shapes_fit_def)
qed

lemma get_forward_parameters_Inr_fit:
  assumes "get_forward_parameters flags t_vars vocab_size = Inr ps"
  shows "block_shapes_fit (vars_named ''hidden_1'' ''weights'' t_vars)
           (vars_named ''hidden_1'' ''biases'' t_vars) (FLAGS_hidden_size_1 flags) \<and>
         block_shapes_fit (vars_named ''hidden_2'' ''weights'' t_vars)
           (vars_named ''hidden_2'' ''biases'' t_vars) (FLAGS_hidden_size_2 flags) \<and>
         block_shapes_fit (vars_named ''output_1'' ''weights'' t_vars)
           (vars_named ''output_1'' ''biases'' t_vars) (FLAGS_hidden_size_1 flags) \<and>
         block_shapes_fit (vars_named ''output_2'' ''weights'' t_vars)
           (vars_named ''output_2'' ''biases'' t_vars) vocab_size"
  using assms unfolding get_forward_parameters_def Let_def
  by (auto split: sum.splits intro: block_Inr_fit)

lemma get_forward_parameters_fit:
  assumes "block_shapes_fit (vars_named ''hidden_1'' ''weights'' t_vars)
             (vars_named ''hidden_1'' ''biases'' t_vars) (FLAGS_hidden_size_1 flags)"
    and "block_shapes_fit (vars_named ''hidden_2'' ''weights'' t_vars)
           (vars_named ''hidden_2'' ''biases'' t_vars) (FLAGS_hidden_size_2 flags)"
    and "block_shapes_fit (vars_named ''output_1'' ''weights'' t_vars)
           (vars_named ''output_1'' ''biases'' t_vars) (FLAGS_hidden_size_1 flags)"
    and "block_shapes_fit (vars_named ''output_2'' ''weights'' t_vars)
           (vars_named ''output_2'' ''biases'' t_vars) vocab_size"
  shows "get_forward_parameters flags t_vars vocab_size =
        Inr [Concat (Variable (fst (hd (vars_named ''hidden_1'' ''weights'' t_vars)))
                       (snd (hd (vars_named ''hidden_1'' ''weights'' t_vars))))
               (Reshape (Variable (fst (hd (vars_named ''hidden_1'' ''biases'' t_vars)))
                           (snd (hd (vars_named ''hidden_1'' ''biases'' t_vars))))
                  [1, FLAGS_hidden_size_1 flags]),
             Concat (Variable (fst (hd (vars_named ''hidden_2'' ''weights'' t_vars)))
                       (snd (hd (vars_named ''hidden_2'' ''weights'' t_vars))))
               (Reshape (Variable (fst (hd (vars_named ''hidden_2'' ''biases'' t_vars)))
                           (snd (hd (vars_named ''hidden_2'' ''biases'' t_vars))))
                  [1, FLAGS_hidden_size_2 flags]),
             Concat (Variable (fst (hd (vars_named ''output_1'' ''weights'' t_vars)))
                       (snd (hd (vars_named ''output_1'' ''weights'' t_vars))))
               (Reshape (Variable (fst (hd (vars_named ''output_1'' ''biases'' t_vars)))
                           (snd (hd (vars_named ''output_1'' ''biases'' t_vars))))
                  [1, FLAGS_hidden_size_1 flags]),
             Concat (Variable (fst (hd (vars_named ''output_2'' ''weights'' t_vars)))
                       (snd (hd (vars_named ''output_2'' ''weights'' t_vars))))
               (Reshape (Variable (fst (hd (vars_named ''output_2'' ''biases'' t_vars)))
                           (snd (hd (vars_named ''output_2'' ''biases'' t_vars))))
                  [1, vocab_size])]"
  unfolding get_forward_parameters_def Let_def
  by (simp add: block_fit [OF assms(1)] block_fit [OF assms(2)] block_fit [OF assms(3)]
        block_fit [OF assms(4)])

text \<open>
  Claim C9, as amended. When one of the eight groups of trainable variables (layer
  \<open>hidden_1\<close>, \<open>hidden_2\<close>, \<open>output_1\<close>, \<open>output_2\<close>; kind \<open>weights\<close>, \<open>biases\<close>) is empty,
  \<open>get_forward_parameters\<close> fails: with \<open>IndexError\<close>, or with the \<open>ValueError\<close> of a shape
  check in an earlier block. When every group has a variable, the result depends on the
  shapes of the first variable of each group: if in every block the bias has as many
  elements as the width asked for (or the width is -1) and the weights are a matrix with
  as many columns, the result is the list of the four matrices of weights over bias row;
  otherwise \<open>get_forward_parameters\<close> fails with the \<open>ValueError\<close> of the shape check.
\<close>

theorem C9_forward_parameters_fail_fast:
  fixes flags :: FLAGS and t_vars :: "(string \<times> nat list) list" and vocab_size :: int
  defines "fit \<equiv>
      block_shapes_fit (vars_named ''hidden_1'' ''weights'' t_vars)
        (vars_named ''hidden_1'' ''biases'' t_vars) (FLAGS_hidden_size_1 flags) \<and>
      block_shapes_fit (vars_named ''hidden_2'' ''weights'' t_vars)
        (vars_named ''hidden_2'' ''biases'' t_vars) (FLAGS_hidden_size_2 flags) \<and>
      block_shapes_fit (vars_named ''output_1'' ''weights'' t_vars)
        (vars_named ''output_1'' ''biases'' t_vars) (FLAGS_hidden_size_1 flags) \<and>
      block_shapes_fit (vars_named ''output_2'' ''weights'' t_vars)
        (vars_named ''output_2'' ''biases'' t_vars) vocab_size"
  shows
  "((\<exists>layer \<in> {''hidden_1'', ''hidden_2'', ''output_1'', ''output_2''}.
       \<exists>kind \<in> {''weights'', ''biases''}. vars_named layer kind t_vars = []) \<longrightarrow>
      get_forward_parameters flags t_vars vocab_size = Inl IndexError \<or>
      get_forward_parameters flags t_vars vocab_size = Inl GraphValueError) \<and>
   ((\<forall>layer \<in> {''hidden_1'', ''hidden_2'', ''output_1'', ''output_2''}.
       \<forall>kind \<in> {''weights'', ''biases''}. vars_named layer kind t_vars \<noteq> []) \<and> fit \<longrightarrow>
      get_forward_parameters flags t_vars vocab_size =
        Inr [Concat (Variable (fst (hd (vars_named ''hidden_1'' ''weights'' t_vars)))
                       (snd (hd (vars_named ''hidden_1'' ''weights'' t_vars))))
               (Reshape (Variable (fst (hd (vars_named ''hidden_1'' ''biases'' t_vars)))
                           (snd (hd (vars_named ''hidden_1'' ''biases'' t_vars))))
                  [1, FLAGS_hidden_size_1 flags]),
             Concat (Variable (fst (hd (vars_named ''hidden_2'' ''weights'' t_vars)))
                       (snd (hd (vars_named ''hidden_2'' ''weights'' t_vars))))
               (Reshape (Variable (fst (hd (vars_named ''hidden_2'' ''biases'' t_vars)))
                           (snd (hd (vars_named ''hidden_2'' ''biases'' t_vars))))
                  [1, FLAGS_hidden_size_2 flags]),
             Concat (Variable (fst (hd (vars_named ''output_1'' ''weights'' t_vars)))
                       (snd (hd (vars_named ''output_1'' ''weights'' t_vars))))
               (Reshape (Variable (fst (hd (vars_named ''output_1'' ''biases'' t_vars)))
                           (snd (hd (vars_named ''output_1'' ''biases'' t_vars))))
                  [1, FLAGS_hidden_size_1 flags]),
             Concat (Variable (fst (hd (vars_named ''output_2'' ''weights'' t_vars)))
                       (snd (hd (vars_named ''output_2'' ''weights'' t_vars))))
               (Reshape (Variable (fst (hd (vars_named ''output_2'' ''biases'' t_vars)))
                           (snd (hd (vars_named ''output_2'' ''biases'' t_vars))))
                  [1, vocab_size])]) \<and>
   ((\<forall>layer \<in> {''hidden_1'', ''hidden_2'', ''output_1'', ''output_2''}.
       \<forall>kind \<in> {''weights'', ''biases''}. vars_named layer kind t_vars \<noteq> []) \<and> \<not> fit \<longrightarrow>
      get_forward_parameters flags t_vars vocab_size = Inl GraphValueError)"
proof (intro conjI impI)
  assume empty: "\<exists>layer \<in> {''hidden_1'', ''hidden_2'', ''output_1'', ''output_2''}.
       \<exists>kind \<in> {''weights'', ''biases''}. vars_named layer kind t_vars = []"
  show "get_forward_parameters flags t_vars vocab_size = Inl IndexError \<or>
      get_forward_parameters flags t_vars vocab_size = Inl GraphValueError"
  proof (cases "get_forward_parameters flags t_vars vocab_size")
    case (Inl e)
    with get_forward_parameters_error [of flags t_vars vocab_size e] show ?thesis by auto
  next
    case (Inr ps)
    from get_forward_parameters_Inr [OF Inr] empty show ?thesis by auto
  qed
next
  assume "(\<forall>layer \<in> {''hidden_1'', ''hidden_2'', ''output_1'', ''output_2''}.
       \<forall>kind \<in> {''weights'', ''biases''}. vars_named layer kind t_vars \<noteq> []) \<and> fit"
  then have fit by simp
  then show "get_forward_parameters flags t_vars vocab_size =
        Inr [Concat (Variable (fst (hd (vars_named ''hidden_1'' ''weights'' t_vars)))
                       (snd (hd (vars_named ''hidden_1'' ''weights'' t_vars))))
               (Reshape (Variable (fst (hd (vars_named ''hidden_1'' ''biases'' t_vars)))
                           (snd (hd (vars_named ''hidden_1'' ''biases'' t_vars))))
                  [1, FLAGS_hidden_size_1 flags]),
             Concat (Variable (fst (hd (vars_named ''hidden_2'' ''weights'' t_vars)))
                       (snd (hd (vars_named ''hidden_2'' ''weights'' t_vars))))
               (Reshape (Variable (fst (hd (vars_named ''hidden_2'' ''biases'' t_vars)))
                           (snd (hd (vars_named ''hidden_2'' ''biases'' t_vars))))
                  [1, FLAGS_hidden_size_2 flags]),
             Concat (Variable (fst (hd (vars_named ''output_1'' ''weights'' t_vars)))
                       (snd (hd (vars_named ''output_1'' ''weights'' t_vars))))
               (Reshape (Variable (fst (hd (vars_named ''output_1'' ''biases'' t_vars)))
                           (snd (hd (vars_named ''output_1'' ''biases'' t_vars))))
                  [1, FLAGS_hidden_size_1 flags]),
             Concat (Variable (fst (hd (vars_named ''output_2'' ''weights'' t_vars)))
                       (snd (hd (vars_named ''output_2'' ''weights'' t_vars))))
               (Reshape (Variable (fst (hd (vars_named ''output_2'' ''biases'' t_vars)))
                           (snd (hd (vars_named ''output_2'' ''biases'' t_vars))))
                  [1, vocab_size])]"
    unfolding fit_def by (intro get_forward_parameters_fit) simp_all
next
  assume unfit: "(\<forall>layer \<in> {''hidden_1'', ''hidden_2'', ''output_1'', ''output_2''}.
       \<forall>kind \<in> {''weights'', ''biases''}. vars_named layer kind t_vars \<noteq> []) \<and> \<not> fit"
  show "get_forward_parameters flags t_vars vocab_size = Inl GraphValueError"
  proof (cases "get_forward_parameters flags t_vars vocab_size")
    case (Inr ps)
    from get_forward_parameters_Inr_fit [OF Inr] unfit show ?thesis
      by (simp add: fit_def)
  next
    case (Inl e)
    from get_forward_parameters_error [OF Inl] have "e = IndexError \<or> e = GraphValueError" .
    moreover have "e \<noteq> IndexError"
    proof
      assume "e = IndexError"
      with Inl get_forward_parameters_IndexError [of flags t_vars vocab_size] unfit
      show False by auto
    qed
    ultimately show ?thesis using Inl by simp
  qed
qed

lemmas forward_parameters_defs =
  get_forward_parameters_def vars_named_def reshaped_bias_def weights_over_bias_def item_def
  tf_reshape_def reshape_ok_def reshape_shape_def tf_concat_def Let_def

text \<open>
  A variable list without the output layers, the trainable variables of the sample model,
  and these with a bias of the last layer that has 25 elements for a vocabulary of 4716.
\<close>

theorem C9_forward_parameters_fail_fast_witness:
  "get_forward_parameters sample_flags
     [(''model/hidden_1/weights:0'', [4716, 100]), (''model/hidden_1/biases:0'', [100]),
      (''model/hidden_2/weights:0'', [100, 50]), (''model/hidden_2/biases:0'', [50]),
      (''model/output_1/weights:0'', [50, 100]), (''model/output_1/biases:0'', [100]),
      (''model/output_2/weights:0'', [100, 4716])] 4716 = Inl IndexError \<and>
   get_forward_parameters sample_flags (trainable_variables sample_model_graph) 4716 =
     Inr [Concat (Variable ''model/hidden_1/weights:0'' [4716, 100])
            (Reshape (Variable ''model/hidden_1/biases:0'' [100]) [1, 100]),
          Concat (Variable ''model/hidden_2/weights:0'' [100, 50])
            (Reshape (Variable ''model/hidden_2/biases:0'' [50]) [1, 50]),
          Concat (Variable ''model/output_1/weights:0'' [50, 100])
            (Reshape (Variable ''model/output_1/biases:0'' [100]) [1, 100]),
          Concat (Variable ''model/output_2/weights:0'' [100, 4716])
            (Reshape (Variable ''model/output_2/biases:0'' [4716]) [1, 4716])] \<and>
   get_forward_parameters sample_flags
     [(''model/hidden_1/weights:0'', [4716, 100]), (''model/hidden_1/biases:0'', [100]),
      (''model/hidden_2/weights:0'', [100, 50]), (''model/hidden_2/biases:0'', [50]),
      (''model/output_1/weights:0'', [50, 100]), (''model/output_1/biases:0'', [100]),
      (''model/output_2/weights:0'', [100, 4716]), (''model/output_2/biases:0'', [25])]
     4716 = Inl GraphValueError"
proof -
  let ?short = "[(''model/hidden_1/weights:0'', [4716, 100]), (''model/hidden_1/biases:0'', [100]),
      (''model/hidden_2/weights:0'', [100, 50]), (''model/hidden_2/biases:0'', [50]),
      (''model/output_1/weights:0'', [50, 100]), (''model/output_1/biases:0'', [100]),
      (''model/output_2/weights:0'', [100::nat, 4716])]"
  let ?full = "trainable_variables sample_model_graph"
  let ?misfit = "[(''model/hidden_1/weights:0'', [4716, 100]), (''model/hidden_1/biases:0'', [100]),
      (''model/hidden_2/weights:0'', [100, 50]), (''model/hidden_2/biases:0'', [50]),
      (''model/output_1/weights:0'', [50, 100]), (''model/output_1/biases:0'', [100]),
      (''model/output_2/weights:0'', [100, 4716]), (''model/output_2/biases:0'', [25::nat])]"
  have "vars_named ''output_2'' ''biases'' ?short = []"
    by (simp add: vars_named_def)
  then have missing: "\<exists>layer \<in> {''hidden_1'', ''hidden_2'', ''output_1'', ''output_2''}.
       \<exists>kind \<in> {''weights'', ''biases''}. vars_named layer kind ?short = []"
    by (intro bexI [of _ "''output_2''"] bexI [of _ "''biases''"]) simp_all
  note short = C9_forward_parameters_fail_fast [of ?short sample_flags 4716]
  from short [THEN conjunct1, THEN mp, OF missing]
  have "get_forward_parameters sample_flags ?short 4716 = Inl IndexError \<or>
        get_forward_parameters sample_flags ?short 4716 = Inl GraphValueError" .
  moreover have "get_forward_parameters sample_flags ?short 4716 \<noteq> Inl GraphValueError"
    by (simp add: forward_parameters_defs sample_flags_def)
  ultimately have fails: "get_forward_parameters sample_flags ?short 4716 = Inl IndexError"
    by (elim disjE) simp_all
  have found:
    "vars_named ''hidden_1'' ''weights'' ?full = [(''model/hidden_1/weights:0'', [4716, 100])]"
    "vars_named ''hidden_1'' ''biases'' ?full = [(''model/hidden_1/biases:0'', [100])]"
    "vars_named ''hidden_2'' ''weights'' ?full = [(''model/hidden_2/weights:0'', [100, 50])]"
    "vars_named ''hidden_2'' ''biases'' ?full = [(''model/hidden_2/biases:0'', [50])]"
    "vars_named ''output_1'' ''weights'' ?full = [(''model/output_1/weights:0'', [50, 100])]"
    "vars_named ''output_1'' ''biases'' ?full = [(''model/output_1/biases:0'', [100])]"
    "vars_named ''output_2'' ''weights'' ?full = [(''model/output_2/weights:0'', [100, 4716])]"
    "vars_named ''output_2'' ''biases'' ?full = [(''model/output_2/biases:0'', [4716])]"
    by (simp_all add: vars_named_def sample_model_graph_def)
  have fit:
    "block_shapes_fit (vars_named ''hidden_1'' ''weights'' ?full)
       (vars_named ''hidden_1'' ''biases'' ?full) (FLAGS_hidden_size_1 sample_flags)"
    "block_shapes_fit (vars_named ''hidden_2'' ''weights'' ?full)
       (vars_named ''hidden_2'' ''biases'' ?full) (FLAGS_hidden_size_2 sample_flags)"
    "block_shapes_fit (vars_named ''output_1'' ''weights'' ?full)
       (vars_named ''output_1'' ''biases'' ?full) (FLAGS_hidden_size_1 sample_flags)"
    "block_shapes_fit (vars_named ''output_2'' ''weights'' ?full)
       (vars_named ''output_2'' ''biases'' ?full) 4716"
    by (simp_all only: found) (simp_all add: block_shapes_fit_def sample_flags_def)
  have present: "\<forall>layer \<in> {''hidden_1'', ''hidden_2'', ''output_1'', ''output_2''}.
       \<forall>kind \<in> {''weights'', ''biases''}. vars_named layer kind ?full \<noteq> []"
    by (simp add: found)
  note full = C9_forward_parameters_fail_fast [of ?full sample_flags 4716]
  from present fit have fits: "(\<forall>layer \<in> {''hidden_1'', ''hidden_2'', ''output_1'', ''output_2''}.
       \<forall>kind \<in> {''weights'', ''biases''}. vars_named layer kind ?full \<noteq> []) \<and>
    block_shapes_fit (vars_named ''hidden_1'' ''weights'' ?full)
       (vars_named ''hidden_1'' ''biases'' ?full) (FLAGS_hidden_size_1 sample_flags) \<and>
    block_shapes_fit (vars_named ''hidden_2'' ''weights'' ?full)
       (vars_named ''hidden_2'' ''biases'' ?full) (FLAGS_hidden_size_2 sample_flags) \<and>
    block_shapes_fit (vars_named ''output_1'' ''weights'' ?full)
       (vars_named ''output_1'' ''biases'' ?full) (FLAGS_hidden_size_1 sample_flags) \<and>
    block_shapes_fit (vars_named ''output_2'' ''weights'' ?full)
       (vars_named ''output_2'' ''biases'' ?full) 4716"
    by (intro conjI)
  from full [THEN conjunct2, THEN conjunct1, THEN mp, OF fits]
  have "get_forward_parameters sample_flags ?full 4716 =
        Inr [Concat (Variable (fst (hd (vars_named ''hidden_1'' ''weights'' ?full)))
                       (snd (hd (vars_named ''hidden_1'' ''weights'' ?full))))
               (Reshape (Variable (fst (hd (vars_named ''hidden_1'' ''biases'' ?full)))
                           (snd (hd (vars_named ''hidden_1'' ''biases'' ?full))))
                  [1, FLAGS_hidden_size_1 sample_flags]),
             Concat (Variable (fst (hd (vars_named ''hidden_2'' ''weights'' ?full)))
                       (snd (hd (vars_named ''hidden_2'' ''weights'' ?full))))
               (Reshape (Variable (fst (hd (vars_named ''hidden_2'' ''biases'' ?full)))
                           (snd (hd (vars_named ''hidden_2'' ''biases'' ?full))))
                  [1, FLAGS_hidden_size_2 sample_flags]),
             Concat (Variable (fst (hd (vars_named ''output_1'' ''weights'' ?full)))
                       (snd (hd (vars_named ''output_1'' ''weights'' ?full))))
               (Reshape (Variable (fst (hd (vars_named ''output_1'' ''biases'' ?full)))
                           (snd (hd (vars_named ''output_1'' ''biases'' ?full))))
                  [1, FLAGS_hidden_size_1 sample_flags]),
             Concat (Variable (fst (hd (vars_named ''output_2'' ''weights'' ?full)))
                       (snd (hd (vars_named ''output_2'' ''weights'' ?full))))
               (Reshape (Variable (fst (hd (vars_named ''output_2'' ''biases'' ?full)))
                           (snd (hd (vars_named ''output_2'' ''biases'' ?full))))
                  [1, 4716])]" .
  then have returns: "get_forward_parameters sample_flags ?full 4716 =
     Inr [Concat (Variable ''model/hidden_1/weights:0'' [4716, 100])
            (Reshape (Variable ''model/hidden_1/biases:0'' [100]) [1, 100]),
          Concat (Variable ''model/hidden_2/weights:0'' [100, 50])
            (Reshape (Variable ''model/hidden_2/biases:0'' [50]) [1, 50]),
          Concat (Variable ''model/output_1/weights:0'' [50, 100])
            (Reshape (Variable ''model/output_1/biases:0'' [100]) [1, 100]),
          Concat (Variable ''model/output_2/weights:0'' [100, 4716])
            (Reshape (Variable ''model/output_2/biases:0'' [4716]) [1, 4716])]"
    by (simp only: found list.sel fst_conv snd_conv) (simp add: sample_flags_def)
  have all_named:
    "vars_named ''hidden_1'' ''weights'' ?misfit = [(''model/hidden_1/weights:0'', [4716, 100])]"
    "vars_named ''hidden_1'' ''biases'' ?misfit = [(''model/hidden_1/biases:0'', [100])]"
    "vars_named ''hidden_2'' ''weights'' ?misfit = [(''model/hidden_2/weights:0'', [100, 50])]"
    "vars_named ''hidden_2'' ''biases'' ?misfit = [(''model/hidden_2/biases:0'', [50])]"
    "vars_named ''output_1'' ''weights'' ?misfit = [(''model/output_1/weights:0'', [50, 100])]"
    "vars_named ''output_1'' ''biases'' ?misfit = [(''model/output_1/biases:0'', [100])]"
    "vars_named ''output_2'' ''weights'' ?misfit = [(''model/output_2/weights:0'', [100, 4716])]"
    "vars_named ''output_2'' ''biases'' ?misfit = [(''model/output_2/biases:0'', [25])]"
    by (simp_all add: vars_named_def)
  have unfit: "\<not> block_shapes_fit (vars_named ''output_2'' ''weights'' ?misfit)
       (vars_named ''output_2'' ''biases'' ?misfit) 4716"
    by (simp only: all_named) (simp add: block_shapes_fit_def)
  have present': "\<forall>layer \<in> {''hidden_1'', ''hidden_2'', ''output_1'', ''output_2''}.
       \<forall>kind \<in> {''weights'', ''biases''}. vars_named layer kind ?misfit \<noteq> []"
    by (simp add: all_named)
  note misfit = C9_forward_parameters_fail_fast [of ?misfit sample_flags 4716]
  have notfit: "\<not> (block_shapes_fit (vars_named ''hidden_1'' ''weights'' ?misfit)
          (vars_named ''hidden_1'' ''biases'' ?misfit) (FLAGS_hidden_size_1 sample_flags) \<and>
        block_shapes_fit (vars_named ''hidden_2'' ''weights'' ?misfit)
          (vars_named ''hidden_2'' ''biases'' ?misfit) (FLAGS_hidden_size_2 sample_flags) \<and>
        block_shapes_fit (vars_named ''output_1'' ''weights'' ?misfit)
          (vars_named ''output_1'' ''biases'' ?misfit) (FLAGS_hidden_size_1 sample_flags) \<and>
        block_shapes_fit (vars_named ''output_2'' ''weights'' ?misfit)
          (vars_named ''output_2'' ''biases'' ?misfit) 4716)"
  proof
    assume "block_shapes_fit (vars_named ''hidden_1'' ''weights'' ?misfit)
          (vars_named ''hidden_1'' ''biases'' ?misfit) (FLAGS_hidden_size_1 sample_flags) \<and>
        block_shapes_fit (vars_named ''hidden_2'' ''weights'' ?misfit)
          (vars_named ''hidden_2'' ''biases'' ?misfit) (FLAGS_hidden_size_2 sample_flags) \<and>
        block_shapes_fit (vars_named ''output_1'' ''weights'' ?misfit)
          (vars_named ''output_1'' ''biases'' ?misfit) (FLAGS_hidden_size_1 sample_flags) \<and>
        block_shapes_fit (vars_named ''output_2'' ''weights'' ?misfit)
          (vars_named ''output_2'' ''biases'' ?misfit) 4716"
    then have "block_shapes_fit (vars_named ''output_2'' ''weights'' ?misfit)
          (vars_named ''output_2'' ''biases'' ?misfit) 4716"
      by (elim conjE)
    with unfit show False by (rule notE)
  qed
  from present' notfit have unfits:
    "(\<forall>layer \<in> {''hidden_1'', ''hidden_2'', ''output_1'', ''output_2''}.
       \<forall>kind \<in> {''weights'', ''biases''}. vars_named layer kind ?misfit \<noteq> []) \<and>
     \<not> (block_shapes_fit (vars_named ''hidden_1'' ''weights'' ?misfit)
          (vars_named ''hidden_1'' ''biases'' ?misfit) (FLAGS_hidden_size_1 sample_flags) \<and>
        block_shapes_fit (vars_named ''hidden_2'' ''weights'' ?misfit)
          (vars_named ''hidden_2'' ''biases'' ?misfit) (FLAGS_hidden_size_2 sample_flags) \<and>
        block_shapes_fit (vars_named ''output_1'' ''weights'' ?misfit)
          (vars_named ''output_1'' ''biases'' ?misfit) (FLAGS_hidden_size_1 sample_flags) \<and>
        block_shapes_fit (vars_named ''output_2'' ''weights'' ?misfit)
          (vars_named ''output_2'' ''biases'' ?misfit) 4716)"
    by (rule conjI)
  from misfit [THEN conjunct2, THEN conjunct2, THEN mp, OF unfits]
  have rejected: "get_forward_parameters sample_flags ?misfit 4716 = Inl GraphValueError" .
  from fails returns rejected show ?thesis by (intro conjI)
qed

text \<open>
  Against claim C9 as stated: every group has a match, the bias of \<open>hidden_1\<close> has 50
  elements where \<open>FLAGS.hidden_size_1\<close> is 100, and no list of four matrices is returned:
  \<open>tf.reshape\<close> raises.
\<close>

theorem C9_misfit_counterexample:
  "vars_named ''hidden_1'' ''weights''
     [(''model/hidden_1/weights:0'', [4716, 100]), (''model/hidden_1/biases:0'', [50]),
      (''model/hidden_2/weights:0'', [100, 50]), (''model/hidden_2/biases:0'', [50]),
      (''model/output_1/weights:0'', [50, 100]), (''model/output_1/biases:0'', [100]),
      (''model/output_2/weights:0'', [100, 4716]), (''model/output_2/biases:0'', [4716])] \<noteq> [] \<and>
   vars_named ''hidden_1'' ''biases''
     [(''model/hidden_1/weights:0'', [4716, 100]), (''model/hidden_1/biases:0'', [50]),
      (''model/hidden_2/weights:0'', [100, 50]), (''model/hidden_2/biases:0'', [50]),
      (''model/output_1/weights:0'', [50, 100]), (''model/output_1/biases:0'', [100]),
      (''model/output_2/weights:0'', [100, 4716]), (''model/output_2/biases:0'', [4716])] \<noteq> [] \<and>
   get_forward_parameters sample_flags
     [(''model/hidden_1/weights:0'', [4716, 100]), (''model/hidden_1/biases:0'', [50]),
      (''model/hidden_2/weights:0'', [100, 50]), (''model/hidden_2/biases:0'', [50]),
      (''model/output_1/weights:0'', [50, 100]), (''model/output_1/biases:0'', [100]),
      (''model/output_2/weights:0'', [100, 4716]), (''model/output_2/biases:0'', [4716])]
     4716 = Inl GraphValueError"
  by (simp add: forward_parameters_defs sample_flags_def)

text \<open>
  The learning rate that \<open>build_graph\<close> hands to the optimizer and to the summary: the
  exponential-decay node over the product of global step and batch size, with the
  staircase flag set. Its numeric value is computed by the library.
\<close>

lemma build_graph_learning_rate:
  assumes "build_graph env flags reader model train_data_pattern label_loss_fn batch_size
             base_learning_rate learning_rate_decay_examples learning_rate_decay optimizer_class
             clip_gradient_norm regularization_penalty num_readers num_epochs = Inr g"
  shows "(''learning_rate'',
          ExponentialDecay base_learning_rate
            (Mul (Variable ''global_step'' []) (IntConst batch_size))
            learning_rate_decay_examples learning_rate_decay True) \<in> set (summaries g)"
  using assms
  by (auto simp: build_graph_def Let_def split: sum.splits option.splits prod.splits)

lemma select_label_loss_eq:
  "select_label_loss r fn p (case result_predictions_class r of Some c \<Rightarrow> c | None \<Rightarrow> p) lb =
     (case result_loss r of
        Some l \<Rightarrow> l
      | None \<Rightarrow>
          (case result_predictions_class r of
             Some c \<Rightarrow> CalculateLossMix fn p c lb
           | None \<Rightarrow> CalculateLoss fn p lb))"
  by (simp add: select_label_loss_def split: option.splits)

text \<open>
  Claim C7. Let the input tensors be read, the optimizer be constructed, the forward
  parameters be extracted, and the model's result have the key \<open>predictions\<close>, flattened
  with the reader's labels into \<open>predictions\<close> and \<open>labels_batch\<close>. Then \<open>build_graph\<close> returns
  a graph, and the label loss in it is the model's own \<open>loss\<close> when the result has that key;
  otherwise, when the result has the key \<open>predictions_class\<close>, the mixed loss of the
  predictions and that second head against the labels; otherwise the loss function
  applied to the predictions and the labels. This label loss is the one recorded under
  the summary \<open>label_loss\<close>; behind the barrier on the update operations when there are
  any, it is the middle term of the total loss registered under \<open>loss\<close>, and that total loss
  is what the three operations of the collection \<open>train_op\<close> minimise with the optimizer.
  The collections \<open>predictions\<close> and \<open>labels\<close> hold these predictions and labels.
\<close>

theorem C7_label_loss_selection:
  fixes env :: env and reader :: reader and model label_loss_fn optimizer_instance :: pyval
    and labels_batch0 num_frames predictions labels_batch :: tensor
    and batch_size :: int
    and base_learning_rate learning_rate_decay_examples learning_rate_decay
        regularization_penalty :: real
  defines "mg \<equiv> create_model env model labels_batch0 num_frames (num_classes reader) labels_batch0"
  defines "r \<equiv> result mg"
  defines "label_loss \<equiv>
    (case result_loss r of
       Some loss \<Rightarrow> loss
     | None \<Rightarrow>
         (case result_predictions_class r of
            Some predictions_class \<Rightarrow>
              CalculateLossMix label_loss_fn predictions predictions_class labels_batch
          | None \<Rightarrow> CalculateLoss label_loss_fn predictions labels_batch))"
  defines "reg_loss0 \<equiv> (case result_regularization_loss r of Some l \<Rightarrow> l | None \<Rightarrow> Const 0)"
  defines "reg_loss \<equiv>
    (if regularization_losses mg \<noteq> [] then Add reg_loss0 (AddN (regularization_losses mg))
     else reg_loss0)"
  defines "sparse_loss \<equiv> (case result_loss_sparse r of Some s \<Rightarrow> s | None \<Rightarrow> Const 0)"
  defines "update_ops \<equiv>
    UPDATE_OPS mg @ (case result_update_ops r of Some u \<Rightarrow> u | None \<Rightarrow> [])"
  defines "final_loss \<equiv>
    Add (Add (Mul (Const regularization_penalty) reg_loss)
           (if update_ops \<noteq> [] then Identity label_loss update_ops else label_loss))
      sparse_loss"
  defines "optimizer \<equiv>
    Optimizer optimizer_instance
      (ExponentialDecay base_learning_rate (Mul (Variable ''global_step'' []) (IntConst batch_size))
         learning_rate_decay_examples learning_rate_decay True)"
  assumes optimizer_instance: "instantiate optimizer_class = Inr optimizer_instance"
    and input: "get_input_data_tensors env flags reader train_data_pattern batch_size num_epochs
                  num_readers =
                Inr (input, video_id, model_input_raw, labels_batch0, num_frames)"
    and parameters: "get_forward_parameters flags (trainable_variables mg) (num_classes reader) =
                       Inr parameters"
    and predictions0: "result_predictions r = Some predictions0"
    and flat: "flatten_frames predictions0 labels_batch0 = Inr (predictions, labels_batch)"
  shows "\<exists>g. build_graph env flags reader model train_data_pattern label_loss_fn batch_size
               base_learning_rate learning_rate_decay_examples learning_rate_decay
               optimizer_class clip_gradient_norm regularization_penalty num_readers
               num_epochs = Inr g \<and>
             (''label_loss'', label_loss) \<in> set (summaries g) \<and>
             collections g ''loss'' = [TensorItem final_loss] \<and>
             collections g ''predictions'' = [TensorItem predictions] \<and>
             collections g ''labels'' = [TensorItem (Cast labels_batch)] \<and>
             collections g ''train_op'' =
               [TensorItem (ApplyGradients final_loss optimizer (Variable ''global_step'' [])
                              clip_gradient_norm),
                TensorItem (TrainOp final_loss optimizer (Variable ''global_step'' [])
                              clip_gradient_norm),
                TensorItem (TrainOp final_loss optimizer (Variable ''global_step'' [])
                              clip_gradient_norm)]"
proof -
  note defs = final_loss_def label_loss_def reg_loss_def reg_loss0_def sparse_loss_def
    update_ops_def optimizer_def r_def mg_def
  let ?build = "build_graph env flags reader model train_data_pattern label_loss_fn batch_size
               base_learning_rate learning_rate_decay_examples learning_rate_decay
               optimizer_class clip_gradient_norm regularization_penalty num_readers
               num_epochs"
  from optimizer_instance input parameters predictions0 flat
  obtain g where built: "?build = Inr g"
    unfolding defs by (simp add: build_graph_def Let_def)
  from optimizer_instance input parameters predictions0 flat built
  have summary: "(''label_loss'', label_loss) \<in> set (summaries g)"
    unfolding defs by (auto simp: build_graph_def Let_def select_label_loss_eq)
  from optimizer_instance input parameters predictions0 flat built
  have loss: "collections g ''loss'' = [TensorItem final_loss]"
    unfolding defs
    by (auto simp: build_graph_def Let_def select_label_loss_eq add_to_collection_def)
  from optimizer_instance input parameters predictions0 flat built
  have handles: "collections g ''predictions'' = [TensorItem predictions]"
      "collections g ''labels'' = [TensorItem (Cast labels_batch)]"
    unfolding defs by (auto simp: build_graph_def Let_def add_to_collection_def)
  from optimizer_instance input parameters predictions0 flat built
  have train_op: "collections g ''train_op'' =
               [TensorItem (ApplyGradients final_loss optimizer (Variable ''global_step'' [])
                              clip_gradient_norm),
                TensorItem (TrainOp final_loss optimizer (Variable ''global_step'' [])
                              clip_gradient_norm),
                TensorItem (TrainOp final_loss optimizer (Variable ''global_step'' [])
                              clip_gradient_norm)]"
    unfolding defs
    by (auto simp: build_graph_def Let_def select_label_loss_eq add_to_collection_def)
  from built summary loss handles train_op show ?thesis
    by (intro exI [of _ g] conjI)
qed

text \<open>
  The three cases in the sample environment: a model with its own loss, the sample model
  with the second head, and a model with the predictions only.
\<close>

theorem C7_label_loss_selection_witness:
  "(\<exists>g. build_graph (sample_env []) sample_flags sample_reader
          (PyClass ''OwnLossAutoencoder'' [''BaseModel'', ''object'']) ''train*.tfrecord''
          (PyClass ''CrossEntropyLoss'' [''BaseLoss'', ''object'']) 1024 (1 / 1000) 4000000
          (95 / 100) (PyClass ''AdamOptimizer'' [''Optimizer'', ''object'']) (1 / 10) 1 8
          (Some 5) = Inr g \<and>
        (''label_loss'', External ''loss'' []) \<in> set (summaries g) \<and>
        collections g ''loss'' =
          [TensorItem (Add (Add (Mul (Const 1) (Const 0)) (External ''loss'' [])) (Const 0))]) \<and>
   (\<exists>g. build_graph (sample_env []) sample_flags sample_reader
          (PyClass ''LabelsAutoencoder'' [''BaseModel'', ''object'']) ''train*.tfrecord''
          (PyClass ''CrossEntropyLoss'' [''BaseLoss'', ''object'']) 1024 (1 / 1000) 4000000
          (95 / 100) (PyClass ''AdamOptimizer'' [''Optimizer'', ''object'']) (1 / 10) 1 8
          (Some 5) = Inr g \<and>
        (''label_loss'',
         CalculateLossMix (PyClass ''CrossEntropyLoss'' [''BaseLoss'', ''object''])
           (External ''predictions'' [1024, 4716]) (External ''predictions_class'' [1024, 25])
           (External ''labels'' [1024, 4716])) \<in> set (summaries g) \<and>
        collections g ''predictions'' = [TensorItem (External ''predictions'' [1024, 4716])] \<and>
        collections g ''labels'' = [TensorItem (Cast (External ''labels'' [1024, 4716]))]) \<and>
   (\<exists>g. build_graph (sample_env []) sample_flags sample_reader
          (PyClass ''PlainAutoencoder'' [''BaseModel'', ''object'']) ''train*.tfrecord''
          (PyClass ''CrossEntropyLoss'' [''BaseLoss'', ''object'']) 1024 (1 / 1000) 4000000
          (95 / 100) (PyClass ''AdamOptimizer'' [''Optimizer'', ''object'']) (1 / 10) 1 8
          (Some 5) = Inr g \<and>
        (''label_loss'',
         CalculateLoss (PyClass ''CrossEntropyLoss'' [''BaseLoss'', ''object''])
           (External ''predictions'' [1024, 4716]) (External ''labels'' [1024, 4716]))
          \<in> set (summaries g))"
proof -
  let ?own = "PyClass ''OwnLossAutoencoder'' [''BaseModel'', ''object'']"
  let ?mixed = "PyClass ''LabelsAutoencoder'' [''BaseModel'', ''object'']"
  let ?plain = "PyClass ''PlainAutoencoder'' [''BaseModel'', ''object'']"
  let ?adam = "PyClass ''AdamOptimizer'' [''Optimizer'', ''object'']"
  let ?labels = "External ''labels'' [1024, 4716]"
  let ?frames = "External ''num_frames'' [1024]"
  let ?predictions = "External ''predictions'' [1024, 4716]"
  have optimizer_instance: "instantiate ?adam = Inr ?adam"
    by simp
  have input: "get_input_data_tensors (sample_env []) sample_flags sample_reader
      ''train*.tfrecord'' 1024 (Some 5) 8 =
    Inr (\<lparr> pipeline_files = [''train00.tfrecord''], pipeline_num_epochs = Some 5,
           pipeline_shuffle = True, pipeline_readers = replicate 8 sample_reader,
           pipeline_batch_size = 1024, pipeline_capacity = 5120,
           pipeline_min_after_dequeue = 1024, pipeline_allow_smaller_final_batch = True,
           pipeline_enqueue_many = True \<rparr>,
         External ''video_id'' [1024], External ''model_input_raw'' [1024, 1024], ?labels,
         ?frames)"
    by (simp add: get_input_data_tensors_def sample_env_def sample_flags_def sample_reader_def)
  have parameters: "\<exists>parameters.
      get_forward_parameters sample_flags
        (trainable_variables
           (create_model (sample_env []) model ?labels ?frames (num_classes sample_reader)
              ?labels))
        (num_classes sample_reader) = Inr parameters" for model
    by (simp add: sample_env_def sample_flags_def sample_reader_def sample_model_graph_def
          sample_own_loss_graph_def sample_plain_graph_def forward_parameters_defs)
  have predictions0: "result_predictions
      (result (create_model (sample_env []) model ?labels ?frames (num_classes sample_reader)
                 ?labels)) = Some ?predictions" for model
    by (simp add: sample_env_def sample_model_graph_def sample_own_loss_graph_def
          sample_plain_graph_def)
  have flat: "flatten_frames ?predictions ?labels = Inr (?predictions, ?labels)"
    by (simp add: flatten_frames_def)
  obtain own_parameters where own_parameters:
      "get_forward_parameters sample_flags
        (trainable_variables
           (create_model (sample_env []) ?own ?labels ?frames (num_classes sample_reader)
              ?labels))
        (num_classes sample_reader) = Inr own_parameters"
    using parameters [of ?own] ..
  obtain mixed_parameters where mixed_parameters:
      "get_forward_parameters sample_flags
        (trainable_variables
           (create_model (sample_env []) ?mixed ?labels ?frames (num_classes sample_reader)
              ?labels))
        (num_classes sample_reader) = Inr mixed_parameters"
    using parameters [of ?mixed] ..
  obtain plain_parameters where plain_parameters:
      "get_forward_parameters sample_flags
        (trainable_variables
           (create_model (sample_env []) ?plain ?labels ?frames (num_classes sample_reader)
              ?labels))
        (num_classes sample_reader) = Inr plain_parameters"
    using parameters [of ?plain] ..
  have own: "\<exists>g. build_graph (sample_env []) sample_flags sample_reader ?own ''train*.tfrecord''
          (PyClass ''CrossEntropyLoss'' [''BaseLoss'', ''object'']) 1024 (1 / 1000) 4000000
          (95 / 100) ?adam (1 / 10) 1 8 (Some 5) = Inr g \<and>
        (''label_loss'', External ''loss'' []) \<in> set (summaries g) \<and>
        collections g ''loss'' =
          [TensorItem (Add (Add (Mul (Const 1) (Const 0)) (External ''loss'' [])) (Const 0))]"
    using C7_label_loss_selection [OF optimizer_instance input own_parameters predictions0 flat,
        of "PyClass ''CrossEntropyLoss'' [''BaseLoss'', ''object'']" "1 / 1000" 4000000
          "95 / 100" "1 / 10" 1]
    by (auto simp: sample_env_def sample_model_graph_def sample_own_loss_graph_def)
  have mixed: "\<exists>g. build_graph (sample_env []) sample_flags sample_reader ?mixed
          ''train*.tfrecord''
          (PyClass ''CrossEntropyLoss'' [''BaseLoss'', ''object'']) 1024 (1 / 1000) 4000000
          (95 / 100) ?adam (1 / 10) 1 8 (Some 5) = Inr g \<and>
        (''label_loss'',
         CalculateLossMix (PyClass ''CrossEntropyLoss'' [''BaseLoss'', ''object''])
           ?predictions (External ''predictions_class'' [1024, 25]) ?labels)
          \<in> set (summaries g) \<and>
        collections g ''predictions'' = [TensorItem ?predictions] \<and>
        collections g ''labels'' = [TensorItem (Cast ?labels)]"
    using C7_label_loss_selection [OF optimizer_instance input mixed_parameters predictions0
        flat, of "PyClass ''CrossEntropyLoss'' [''BaseLoss'', ''object'']" "1 / 1000" 4000000
          "95 / 100" "1 / 10" 1]
    by (auto simp: sample_env_def sample_model_graph_def)
  have plain: "\<exists>g. build_graph (sample_env []) sample_flags sample_reader ?plain
          ''train*.tfrecord''
          (PyClass ''CrossEntropyLoss'' [''BaseLoss'', ''object'']) 1024 (1 / 1000) 4000000
          (95 / 100) ?adam (1 / 10) 1 8 (Some 5) = Inr g \<and>
        (''label_loss'',
         CalculateLoss (PyClass ''CrossEntropyLoss'' [''BaseLoss'', ''object''])
           ?predictions ?labels) \<in> set (summaries g)"
    using C7_label_loss_selection [OF optimizer_instance input plain_parameters predictions0
        flat, of "PyClass ''CrossEntropyLoss'' [''BaseLoss'', ''object'']" "1 / 1000" 4000000
          "95 / 100" "1 / 10" 1]
    by (auto simp: sample_env_def sample_model_graph_def sample_plain_graph_def)
  from own mixed plain show ?thesis by (intro conjI)
qed

section \<open>The sample configuration evaluated\<close>

text \<open>
  The sample trainer is the one the constructor returns for the master task with index 0.
  With the sample environment \<open>build_model\<close> succeeds, and the \<open>parameters\<close> collection of
  the graph holds one value, the list of the four forward parameters, which \<open>np.savetxt\<close>
  does not accept: the four matrices have different shapes. So a session that ends
  because the supervisor asks to stop reaches the export and fails there, leaving the
  empty file \<open>autoencoder_layer0.model\<close>.
\<close>

lemma sample_trainer_constructed:
  "Trainer_init None \<lparr> type = ''master'', index = Some 0 \<rparr> ''/tmp/yt8m_model/'' False =
     Inr sample_trainer"
  by (simp add: Trainer_init_def Let_def py_eq_def py_gt_def sample_trainer_def)

lemmas sample_defs =
  build_model_def sample_env_def sample_flags_def find_class_by_name_def getattr_def
  build_graph_def get_input_data_tensors_def sample_reader_def sample_model_graph_def
  sample_own_loss_graph_def sample_plain_graph_def forward_parameters_defs
  flatten_frames_def get_handles_def add_to_collection_def
  run_def run_training_def start_server_if_distributed_def get_meta_filename_def
  with_device_def Supervisor_init_def managed_session_def try_block_def report_step_def
  logging_info_def sample_trainer_def sample_world_def savetxt_def

lemma sample_build_model:
  "\<exists>g ps. build_model (sample_env events) sample_flags sample_trainer w =
         (Inr g, logging_info ''%s: Built graph.'' [StrArg (task_as_string (self_task sample_trainer))] w) \<and>
       collections g ''parameters'' = [ListItem ps] \<and> length ps = 4 \<and>
       \<not> savetxt_accepts (ListItem ps)"
  by (simp add: sample_defs)

lemma sample_run_stopped:
  "fst (run (sample_env [StepDone 1, ShouldStop]) sample_flags sample_trainer False sample_world) =
     Some (Inl SavetxtError) \<and>
   files (snd (run (sample_env [StepDone 1, ShouldStop]) sample_flags sample_trainer False
                 sample_world)) =
     [''/tmp/yt8m_model/events.out.tfevents'', ''/tmp/yt8m_model/autoencoder_layer0.model'']"
  by (simp add: sample_defs str_nat.simps digit_def)

section \<open>Properties of the checkpoint decision and the training directory\<close>

text \<open>
  Claim C6. \<open>get_meta_filename\<close> answers \<open>None\<close> (a new model is built) exactly when the
  fresh-start flag is set, or there is no latest checkpoint (none, or an empty path), or
  the file named after the checkpoint with the suffix \<open>.meta\<close> does not exist; otherwise it
  answers that file name.
\<close>

theorem C6_recovery_decision:
  "(fst (get_meta_filename env self start_new_model train_dir w) = None \<longleftrightarrow>
      start_new_model \<or> latest_checkpoint env train_dir = None \<or>
      latest_checkpoint env train_dir = Some [] \<or>
      (\<exists>checkpoint. latest_checkpoint env train_dir = Some checkpoint \<and>
         \<not> Exists w (checkpoint @ ''.meta''))) \<and>
   (\<not> start_new_model \<and> latest_checkpoint env train_dir = Some checkpoint \<and>
      checkpoint \<noteq> [] \<and> Exists w (checkpoint @ ''.meta'') \<longrightarrow>
      fst (get_meta_filename env self start_new_model train_dir w) = Some (checkpoint @ ''.meta''))"
  by (auto simp: get_meta_filename_def Let_def split: option.splits)

theorem C6_recovery_decision_witness:
  "fst (get_meta_filename
          ((sample_env []) \<lparr> latest_checkpoint := (\<lambda>dirname. Some ''/tmp/yt8m_model/model.ckpt-10'') \<rparr>)
          sample_trainer False ''/tmp/yt8m_model/''
          (sample_world \<lparr> files := [''/tmp/yt8m_model/model.ckpt-10.meta''] \<rparr>)) =
     Some ''/tmp/yt8m_model/model.ckpt-10.meta'' \<and>
   fst (get_meta_filename
          ((sample_env []) \<lparr> latest_checkpoint := (\<lambda>dirname. Some ''/tmp/yt8m_model/model.ckpt-10'') \<rparr>)
          sample_trainer False ''/tmp/yt8m_model/'' sample_world) = None"
  using C6_recovery_decision [of
          "(sample_env []) \<lparr> latest_checkpoint := (\<lambda>dirname. Some ''/tmp/yt8m_model/model.ckpt-10'') \<rparr>"
          sample_trainer False "''/tmp/yt8m_model/''"
          "sample_world \<lparr> files := [''/tmp/yt8m_model/model.ckpt-10.meta''] \<rparr>"
          "''/tmp/yt8m_model/model.ckpt-10''"]
        C6_recovery_decision [of
          "(sample_env []) \<lparr> latest_checkpoint := (\<lambda>dirname. Some ''/tmp/yt8m_model/model.ckpt-10'') \<rparr>"
          sample_trainer False "''/tmp/yt8m_model/''" sample_world
          "''/tmp/yt8m_model/model.ckpt-10''"]
  by (simp add: sample_env_def sample_world_def Exists_def)

text \<open>
  Claim C4, as amended. When the fresh-start flag is set and the task is the sole master,
  \<open>run\<close> removes the training directory before anything else and then proceeds in either
  case with the rest of the run. Nothing outside the directory is touched. If the deletion
  succeeds, no file of the directory is left and the log has gained the one record that
  announces the removal; if it fails, the log has gained that record and the error record
  that asks to delete the directory manually.
\<close>

theorem C4_start_new_model_removes_directory:
  fixes env :: env and self :: Trainer and w :: world
  defines "w' \<equiv> remove_training_directory env self (self_train_dir self) w"
  assumes "self_is_master self" and "start_new_model"
  shows "run env flags self start_new_model w =
           run_training env flags self start_new_model w' \<and>
         filter (\<lambda>path. \<not> in_directory (self_train_dir self) path) (files w') =
           filter (\<lambda>path. \<not> in_directory (self_train_dir self) path) (files w) \<and>
         (\<not> delete_error env (self_train_dir self) \<longrightarrow>
            (\<forall>path \<in> set (files w'). \<not> in_directory (self_train_dir self) path) \<and>
            log_records w' =
              log_records w @
                [(INFO, ''%s: Removing existing train directory.'',
                  [StrArg (task_as_string (self_task self))])]) \<and>
         (delete_error env (self_train_dir self) \<longrightarrow>
            log_records w' =
              log_records w @
                [(INFO, ''%s: Removing existing train directory.'',
                  [StrArg (task_as_string (self_task self))]),
                 (ERROR,
                  ''%s: Failed to delete directory '' @ self_train_dir self @
                    '' when starting a new model. Please delete it manually and try again.'',
                  [StrArg (task_as_string (self_task self))])])"
proof (intro conjI impI)
  from assms show "run env flags self start_new_model w =
           run_training env flags self start_new_model w'"
    by (simp add: run_def w'_def)
next
  show "filter (\<lambda>path. \<not> in_directory (self_train_dir self) path) (files w') =
           filter (\<lambda>path. \<not> in_directory (self_train_dir self) path) (files w)"
    by (auto simp: w'_def remove_training_directory_def DeleteRecursively_def logging_info_def
          logging_error_def Let_def intro: filter_cong)
next
  assume clean: "\<not> delete_error env (self_train_dir self)"
  then show "\<forall>path \<in> set (files w'). \<not> in_directory (self_train_dir self) path"
    by (simp add: w'_def remove_training_directory_def DeleteRecursively_def logging_info_def
          Let_def)
  from clean show "log_records w' =
              log_records w @
                [(INFO, ''%s: Removing existing train directory.'',
                  [StrArg (task_as_string (self_task self))])]"
    by (simp add: w'_def remove_training_directory_def DeleteRecursively_def logging_info_def
          Let_def)
next
  assume "delete_error env (self_train_dir self)"
  then show "log_records w' =
              log_records w @
                [(INFO, ''%s: Removing existing train directory.'',
                  [StrArg (task_as_string (self_task self))]),
                 (ERROR,
                  ''%s: Failed to delete directory '' @ self_train_dir self @
                    '' when starting a new model. Please delete it manually and try again.'',
                  [StrArg (task_as_string (self_task self))])]"
    by (simp add: w'_def remove_training_directory_def DeleteRecursively_def logging_info_def
          logging_error_def Let_def)
qed

text \<open>
  The sample master with the flag set, on a session of one step followed by the end of
  the input: the deletion succeeds and the directory is empty; and when the deletion
  fails, the failure is logged and the run completes without error.
\<close>

theorem C4_start_new_model_removes_directory_witness:
  "self_is_master sample_trainer \<and>
   files sample_world = [''/tmp/yt8m_model/events.out.tfevents''] \<and>
   files (remove_training_directory (sample_env [StepDone 1, StepRaises OutOfRangeError])
            sample_trainer (self_train_dir sample_trainer) sample_world) = [] \<and>
   run (sample_env [StepDone 1, StepRaises OutOfRangeError]) sample_flags sample_trainer True
       sample_world =
     run_training (sample_env [StepDone 1, StepRaises OutOfRangeError]) sample_flags
       sample_trainer True
       (remove_training_directory (sample_env [StepDone 1, StepRaises OutOfRangeError])
          sample_trainer (self_train_dir sample_trainer) sample_world) \<and>
   log_records
     (remove_training_directory
        ((sample_env [StepDone 1, StepRaises OutOfRangeError])
           \<lparr> delete_error := (\<lambda>dirname. True), left_behind := (\<lambda>path. True) \<rparr>)
        sample_trainer (self_train_dir sample_trainer) sample_world) =
     [(INFO, ''%s: Removing existing train directory.'', [StrArg ''/job:master/task:0'']),
      (ERROR,
       ''%s: Failed to delete directory /tmp/yt8m_model/ when starting a new model. Please delete it manually and try again.'',
       [StrArg ''/job:master/task:0''])] \<and>
   fst (run ((sample_env [StepDone 1, StepRaises OutOfRangeError])
               \<lparr> delete_error := (\<lambda>dirname. True), left_behind := (\<lambda>path. True) \<rparr>)
          sample_flags sample_trainer True sample_world) = Some (Inr ())"
proof -
  let ?env = "sample_env [StepDone 1, StepRaises OutOfRangeError]"
  let ?stuck = "?env \<lparr> delete_error := (\<lambda>dirname. True), left_behind := (\<lambda>path. True) \<rparr>"
  let ?dir = "self_train_dir sample_trainer"
  have master: "self_is_master sample_trainer"
    by (simp add: sample_trainer_def)
  have before: "files sample_world = [''/tmp/yt8m_model/events.out.tfevents'']"
    by (simp add: sample_world_def)
  note removed = C4_start_new_model_removes_directory
    [OF master TrueI, of ?env sample_flags sample_world]
  note kept = C4_start_new_model_removes_directory
    [OF master TrueI, of ?stuck sample_flags sample_world]
  have clean: "\<not> delete_error ?env ?dir"
    by (simp add: sample_env_def)
  have gone: "\<forall>path \<in> set (files (remove_training_directory ?env sample_trainer ?dir
      sample_world)). \<not> in_directory ?dir path"
    by (rule removed [THEN conjunct2, THEN conjunct2, THEN conjunct1, THEN mp, OF clean,
          THEN conjunct1])
  have outside: "filter (\<lambda>path. \<not> in_directory ?dir path)
      (files (remove_training_directory ?env sample_trainer ?dir sample_world)) =
      filter (\<lambda>path. \<not> in_directory ?dir path) (files sample_world)"
    by (rule removed [THEN conjunct2, THEN conjunct1])
  have "filter (\<lambda>path. \<not> in_directory ?dir path) (files sample_world) = []"
    by (simp add: sample_world_def sample_trainer_def in_directory_def)
  with outside have "filter (\<lambda>path. \<not> in_directory ?dir path)
      (files (remove_training_directory ?env sample_trainer ?dir sample_world)) = []"
    by simp
  moreover from gone have "filter (\<lambda>path. \<not> in_directory ?dir path)
      (files (remove_training_directory ?env sample_trainer ?dir sample_world)) =
      files (remove_training_directory ?env sample_trainer ?dir sample_world)"
    by (simp only: filter_id_conv)
  ultimately have empty:
    "files (remove_training_directory ?env sample_trainer ?dir sample_world) = []"
    by simp
  have first: "run ?env sample_flags sample_trainer True sample_world =
     run_training ?env sample_flags sample_trainer True
       (remove_training_directory ?env sample_trainer ?dir sample_world)"
    by (rule removed [THEN conjunct1])
  have stuck: "delete_error ?stuck ?dir"
    by simp
  have "log_records (remove_training_directory ?stuck sample_trainer ?dir sample_world) =
      log_records sample_world @
        [(INFO, ''%s: Removing existing train directory.'',
          [StrArg (task_as_string (self_task sample_trainer))]),
         (ERROR,
          ''%s: Failed to delete directory '' @ ?dir @
            '' when starting a new model. Please delete it manually and try again.'',
          [StrArg (task_as_string (self_task sample_trainer))])]"
    by (rule kept [THEN conjunct2, THEN conjunct2, THEN conjunct2, THEN mp, OF stuck])
  then have logged: "log_records
      (remove_training_directory ?stuck sample_trainer ?dir sample_world) =
     [(INFO, ''%s: Removing existing train directory.'', [StrArg ''/job:master/task:0'']),
      (ERROR,
       ''%s: Failed to delete directory /tmp/yt8m_model/ when starting a new model. Please delete it manually and try again.'',
       [StrArg ''/job:master/task:0''])]"
    by (simp add: sample_trainer_def sample_world_def task_as_string_def str_opt_int_def
          str_int_def str_nat.simps digit_def)
  have completes: "fst (run ?stuck sample_flags sample_trainer True sample_world) = Some (Inr ())"
    by (simp add: sample_defs remove_training_directory_def DeleteRecursively_def
          logging_error_def in_directory_def)
  from master before empty first logged completes show ?thesis by (intro conjI)
qed

text \<open>
  Against claim C4 as stated: the sole master, without the fresh-start flag and without a
  checkpoint, builds a new model (the decision is \<open>None\<close>), and the file that was in the
  training directory is still there after the run, which completes without error.
\<close>

theorem C4_fresh_without_flag_counterexample:
  "self_is_master sample_trainer \<and>
   fst (get_meta_filename (sample_env [StepDone 1, StepRaises OutOfRangeError]) sample_trainer
          False (self_train_dir sample_trainer) sample_world) = None \<and>
   in_directory (self_train_dir sample_trainer) ''/tmp/yt8m_model/events.out.tfevents'' \<and>
   fst (run (sample_env [StepDone 1, StepRaises OutOfRangeError]) sample_flags sample_trainer
          False sample_world) = Some (Inr ()) \<and>
   ''/tmp/yt8m_model/events.out.tfevents'' \<in>
     set (files (snd (run (sample_env [StepDone 1, StepRaises OutOfRangeError]) sample_flags
                        sample_trainer False sample_world)))"
  by (simp add: sample_defs in_directory_def)

section \<open>Properties of the training loop\<close>

text \<open>
  The loop writes no file. When the step raises, the export is skipped, whatever the
  error; when the supervisor asks to stop, the export runs, and its outcome is the
  outcome of the session.
\<close>

lemma training_loop_files: "files (snd (training_loop self events w)) = files w"
  by (induction self events w rule: training_loop.induct)
     (simp_all add: report_step_def logging_info_def)

lemma training_loop_exhausted:
  "fst (training_loop self (map StepDone steps @ StepRaises e # rest) w) = Some (Inl e)"
  by (induction steps arbitrary: w) simp_all

lemma training_loop_stopped:
  "fst (training_loop self (map StepDone steps @ ShouldStop # rest) w) = Some (Inr ())"
  by (induction steps arbitrary: w) simp_all

lemma save_parameters_error:
  "fst (save_parameters flags i params w) = Some e \<Longrightarrow> e = SavetxtError"
  by (induction flags i params w rule: save_parameters.induct)
     (auto simp: savetxt_def split: if_splits)

lemma managed_session_exhausted:
  assumes "session env = map StepDone steps @ StepRaises OutOfRangeError # rest"
  shows "fst (managed_session env flags self params w) = Some (Inr ())"
    and "files (snd (managed_session env flags self params w)) = files w"
proof -
  let ?w1 = "logging_info ''%s: Entering training loop.'' [StrArg (task_as_string (self_task self))] w"
  obtain res w2 where loop: "training_loop self (session env) ?w1 = (res, w2)"
    by (cases "training_loop self (session env) ?w1")
  from loop assms training_loop_exhausted [of self steps OutOfRangeError rest ?w1]
  have res: "res = Some (Inl OutOfRangeError)" by simp
  from loop training_loop_files [of self "session env" ?w1]
  have w2: "files w2 = files w" by (simp add: logging_info_def)
  from loop res show "fst (managed_session env flags self params w) = Some (Inr ())"
    by (simp add: managed_session_def try_block_def Let_def)
  from loop res w2 show "files (snd (managed_session env flags self params w)) = files w"
    by (simp add: managed_session_def try_block_def Let_def logging_info_def)
qed

lemma managed_session_stopped:
  assumes "session env = map StepDone steps @ ShouldStop # rest"
  shows "\<exists>w2. files w2 = files w \<and>
           managed_session env flags self params w =
             (case save_parameters flags 0 params w2 of
                (None, w3) \<Rightarrow> (Some (Inr ()), w3)
              | (Some e, w3) \<Rightarrow> (Some (Inl e), w3))"
proof -
  let ?w1 = "logging_info ''%s: Entering training loop.'' [StrArg (task_as_string (self_task self))] w"
  obtain res w2 where loop: "training_loop self (session env) ?w1 = (res, w2)"
    by (cases "training_loop self (session env) ?w1")
  from loop assms training_loop_stopped [of self steps rest ?w1]
  have res: "res = Some (Inr ())" by simp
  from loop training_loop_files [of self "session env" ?w1]
  have w2: "files w2 = files w" by (simp add: logging_info_def)
  obtain out w3 where save: "save_parameters flags 0 params w2 = (out, w3)"
    by (cases "save_parameters flags 0 params w2")
  have "managed_session env flags self params w =
             (case save_parameters flags 0 params w2 of
                (None, w3) \<Rightarrow> (Some (Inr ()), w3)
              | (Some e, w3) \<Rightarrow> (Some (Inl e), w3))"
  proof (cases out)
    case None
    with loop res save show ?thesis
      by (simp add: managed_session_def try_block_def Let_def)
  next
    case (Some e)
    with save save_parameters_error [of flags 0 params w2 e] have "e = SavetxtError" by simp
    with Some loop res save show ?thesis
      by (simp add: managed_session_def try_block_def Let_def)
  qed
  with w2 show ?thesis by blast
qed

text \<open>
  Claim C2. A run on the sole master whose loop ends because the input is exhausted
  should complete and leave the four parameter files in the training directory. The
  export stands after the loop inside the \<open>try\<close> block, so the \<open>OutOfRangeError\<close> raised by
  the step jumps over it: the run below performs one step, meets the exhausted input,
  completes without error, and the training directory holds the file it held before and
  no parameter file.
\<close>

theorem C2_exhaustion_skips_parameter_export:
  "fst (run (sample_env [StepDone 1, StepRaises OutOfRangeError]) sample_flags sample_trainer
          False sample_world) = Some (Inr ()) \<and>
   files (snd (run (sample_env [StepDone 1, StepRaises OutOfRangeError]) sample_flags
                 sample_trainer False sample_world)) =
     [''/tmp/yt8m_model/events.out.tfevents'']"
  by (simp add: sample_defs)

section \<open>Properties of the dispatch\<close>

lemma cluster_truthy_None: "\<not> cluster_truthy None"
  by (simp add: cluster_truthy_def)

lemma main_dispatch_no_cluster: "\<not> cluster_truthy cluster \<Longrightarrow> main_dispatch cluster task = RunTrainer"
  by (simp add: main_dispatch_def)

lemma main_dispatch_invalid:
  "main_dispatch cluster task = InvalidTaskType \<longleftrightarrow>
     cluster_truthy cluster \<and> type task \<notin> {''master'', ''worker'', ''ps''}"
  by (simp add: main_dispatch_def)

lemma main_no_cluster:
  assumes "\<not> cluster_truthy (config_cluster config)"
  shows "main env flags config w =
        run env flags
          \<lparr> self_cluster = None,
            self_task = (case config_task config of
                           None \<Rightarrow> \<lparr> type = ''master'', index = Some 0 \<rparr>
                         | Some task_data \<Rightarrow> task_data),
            self_is_master =
              (case config_task config of
                 None \<Rightarrow> True
               | Some task_data \<Rightarrow> type task_data = ''master'' \<and> index task_data = Some 0),
            self_train_dir = FLAGS_train_dir flags,
            self_config = FLAGS_log_device_placement flags \<rparr>
          (FLAGS_start_new_model flags)
          (logging_info ''%s: Tensorflow version: %s.''
             [StrArg (task_as_string (case config_task config of
                                        None \<Rightarrow> \<lparr> type = ''master'', index = Some 0 \<rparr>
                                      | Some task_data \<Rightarrow> task_data)),
              StrArg (tf_version env)] w)"
  using assms
  by (simp add: main_def Let_def main_dispatch_no_cluster cluster_truthy_None Trainer_init_total
           split: option.splits)

lemma main_trainer_in_cluster:
  assumes "cluster_truthy (config_cluster config)"
    and "type (case config_task config of
                 None \<Rightarrow> \<lparr> type = ''master'', index = Some 0 \<rparr>
               | Some task_data \<Rightarrow> task_data) \<in> {''master'', ''worker''}"
  shows "main env flags config w =
        run env flags
          \<lparr> self_cluster = config_cluster config,
            self_task = (case config_task config of
                           None \<Rightarrow> \<lparr> type = ''master'', index = Some 0 \<rparr>
                         | Some task_data \<Rightarrow> task_data),
            self_is_master =
              (case config_task config of
                 None \<Rightarrow> True
               | Some task_data \<Rightarrow> type task_data = ''master'' \<and> index task_data = Some 0),
            self_train_dir = FLAGS_train_dir flags,
            self_config = FLAGS_log_device_placement flags \<rparr>
          (FLAGS_start_new_model flags)
          (logging_info ''%s: Tensorflow version: %s.''
             [StrArg (task_as_string (case config_task config of
                                        None \<Rightarrow> \<lparr> type = ''master'', index = Some 0 \<rparr>
                                      | Some task_data \<Rightarrow> task_data)),
              StrArg (tf_version env)] w)"
  using assms
  by (auto simp: main_def Let_def main_dispatch_def Trainer_init_total split: option.splits)

lemma main_parameter_server:
  assumes "cluster_truthy (config_cluster config)"
    and "config_task config = Some task_data" and "type task_data = ''ps''"
  shows "main env flags config w =
        ParameterServer_run (config_cluster config) task_data
          (logging_info ''%s: Tensorflow version: %s.''
             [StrArg (task_as_string task_data), StrArg (tf_version env)] w)"
  using assms by (simp add: main_def Let_def main_dispatch_def)

lemma main_invalid_task_type:
  assumes "cluster_truthy (config_cluster config)"
    and "config_task config = Some task_data"
    and "type task_data \<notin> {''master'', ''worker'', ''ps''}"
  shows "main env flags config w =
        (Some (Inl (ValueError (task_as_string task_data @ '': Invalid task_type: '' @
                                  type task_data @ ''.''))),
         logging_info ''%s: Tensorflow version: %s.''
           [StrArg (task_as_string task_data), StrArg (tf_version env)] w)"
  using assms by (simp add: main_def Let_def main_dispatch_def)

text \<open>
  Claim C10. Without a cluster specification the dispatch chooses the Trainer, whatever
  the role, and the invalid-task-type branch is chosen exactly when a cluster is present
  and the role is none of \<open>master\<close>, \<open>worker\<close>, \<open>ps\<close>. So is \<open>main\<close> itself, for the task of the
  configuration (the master with index 0 when the configuration has none): without a
  cluster it runs the Trainer; with a cluster it runs the Trainer for the roles \<open>master\<close>
  and \<open>worker\<close>, the parameter server for the role \<open>ps\<close>, and for any other role it raises
  the \<open>ValueError\<close> on the task type, after the log line on the version and nothing else.
\<close>

theorem C10_dispatch_without_cluster:
  fixes config :: TF_CONFIG and env :: env and flags :: FLAGS and w :: world
  defines "task0 \<equiv> (case config_task config of
                       None \<Rightarrow> \<lparr> type = ''master'', index = Some 0 \<rparr>
                     | Some task_data \<Rightarrow> task_data)"
  defines "w1 \<equiv> logging_info ''%s: Tensorflow version: %s.''
                   [StrArg (task_as_string task0), StrArg (tf_version env)] w"
  shows
  "(\<not> cluster_truthy cluster \<longrightarrow> main_dispatch cluster task = RunTrainer) \<and>
   (main_dispatch cluster task = InvalidTaskType \<longleftrightarrow>
      cluster_truthy cluster \<and> type task \<notin> {''master'', ''worker'', ''ps''}) \<and>
   (\<not> cluster_truthy (config_cluster config) \<longrightarrow>
      main env flags config w =
        run env flags
          \<lparr> self_cluster = None, self_task = task0,
            self_is_master = (type task0 = ''master'' \<and> index task0 = Some 0),
            self_train_dir = FLAGS_train_dir flags,
            self_config = FLAGS_log_device_placement flags \<rparr>
          (FLAGS_start_new_model flags) w1) \<and>
   (cluster_truthy (config_cluster config) \<and> type task0 \<in> {''master'', ''worker''} \<longrightarrow>
      main env flags config w =
        run env flags
          \<lparr> self_cluster = config_cluster config, self_task = task0,
            self_is_master = (type task0 = ''master'' \<and> index task0 = Some 0),
            self_train_dir = FLAGS_train_dir flags,
            self_config = FLAGS_log_device_placement flags \<rparr>
          (FLAGS_start_new_model flags) w1) \<and>
   (cluster_truthy (config_cluster config) \<and> type task0 = ''ps'' \<longrightarrow>
      main env flags config w = ParameterServer_run (config_cluster config) task0 w1) \<and>
   (cluster_truthy (config_cluster config) \<and> type task0 \<notin> {''master'', ''worker'', ''ps''} \<longrightarrow>
      main env flags config w =
        (Some (Inl (ValueError (task_as_string task0 @ '': Invalid task_type: '' @
                                  type task0 @ ''.''))), w1))"
proof (intro conjI impI)
  assume "\<not> cluster_truthy cluster"
  then show "main_dispatch cluster task = RunTrainer" by (rule main_dispatch_no_cluster)
next
  show "main_dispatch cluster task = InvalidTaskType \<longleftrightarrow>
      cluster_truthy cluster \<and> type task \<notin> {''master'', ''worker'', ''ps''}"
    by (rule main_dispatch_invalid)
next
  assume "\<not> cluster_truthy (config_cluster config)"
  from main_no_cluster [OF this, of env flags w]
  show "main env flags config w =
        run env flags
          \<lparr> self_cluster = None, self_task = task0,
            self_is_master = (type task0 = ''master'' \<and> index task0 = Some 0),
            self_train_dir = FLAGS_train_dir flags,
            self_config = FLAGS_log_device_placement flags \<rparr>
          (FLAGS_start_new_model flags) w1"
    by (simp add: task0_def w1_def split: option.splits)
next
  assume "cluster_truthy (config_cluster config) \<and> type task0 \<in> {''master'', ''worker''}"
  then have "cluster_truthy (config_cluster config)"
    and "type (case config_task config of
                 None \<Rightarrow> \<lparr> type = ''master'', index = Some 0 \<rparr>
               | Some task_data \<Rightarrow> task_data) \<in> {''master'', ''worker''}"
    by (simp_all add: task0_def)
  from main_trainer_in_cluster [OF this, of env flags w]
  show "main env flags config w =
        run env flags
          \<lparr> self_cluster = config_cluster config, self_task = task0,
            self_is_master = (type task0 = ''master'' \<and> index task0 = Some 0),
            self_train_dir = FLAGS_train_dir flags,
            self_config = FLAGS_log_device_placement flags \<rparr>
          (FLAGS_start_new_model flags) w1"
    by (simp add: task0_def w1_def split: option.splits)
next
  assume ps: "cluster_truthy (config_cluster config) \<and> type task0 = ''ps''"
  then obtain task_data where "config_task config = Some task_data" "type task_data = ''ps''"
    by (cases "config_task config") (simp_all add: task0_def)
  with ps main_parameter_server [of config task_data env flags w]
  show "main env flags config w = ParameterServer_run (config_cluster config) task0 w1"
    by (simp add: task0_def w1_def)
next
  assume other: "cluster_truthy (config_cluster config) \<and>
      type task0 \<notin> {''master'', ''worker'', ''ps''}"
  then obtain task_data where "config_task config = Some task_data"
      "type task_data \<notin> {''master'', ''worker'', ''ps''}"
    by (cases "config_task config") (simp_all add: task0_def)
  with other main_invalid_task_type [of config task_data env flags w]
  show "main env flags config w =
        (Some (Inl (ValueError (task_as_string task0 @ '': Invalid task_type: '' @
                                  type task0 @ ''.''))), w1)"
    by (simp add: task0_def w1_def)
qed

text \<open>
  The role \<open>ps\<close> without a cluster, and the role \<open>chief\<close> with one.
\<close>

theorem C10_dispatch_without_cluster_witness:
  "main_dispatch None \<lparr> type = ''ps'', index = Some 0 \<rparr> = RunTrainer \<and>
   main_dispatch (Some [(''ps'', [''ps0:2222''])]) \<lparr> type = ''chief'', index = Some 0 \<rparr> =
     InvalidTaskType \<and>
   main (sample_env [ShouldStop]) sample_flags
     \<lparr> config_cluster = None, config_task = Some \<lparr> type = ''ps'', index = Some 0 \<rparr> \<rparr> sample_world =
     run (sample_env [ShouldStop]) sample_flags
       \<lparr> self_cluster = None, self_task = \<lparr> type = ''ps'', index = Some 0 \<rparr>,
         self_is_master = False, self_train_dir = ''/tmp/yt8m_model/'', self_config = False \<rparr>
       False
       (logging_info ''%s: Tensorflow version: %s.''
          [StrArg (task_as_string \<lparr> type = ''ps'', index = Some 0 \<rparr>), StrArg ''1.0.0''] sample_world) \<and>
   main (sample_env [ShouldStop]) sample_flags
     \<lparr> config_cluster = Some [(''ps'', [''ps0:2222'']), (''worker'', [''w0:2222''])],
       config_task = Some \<lparr> type = ''worker'', index = Some 0 \<rparr> \<rparr> sample_world =
     run (sample_env [ShouldStop]) sample_flags
       \<lparr> self_cluster = Some [(''ps'', [''ps0:2222'']), (''worker'', [''w0:2222''])],
         self_task = \<lparr> type = ''worker'', index = Some 0 \<rparr>,
         self_is_master = False, self_train_dir = ''/tmp/yt8m_model/'', self_config = False \<rparr>
       False
       (logging_info ''%s: Tensorflow version: %s.''
          [StrArg (task_as_string \<lparr> type = ''worker'', index = Some 0 \<rparr>), StrArg ''1.0.0'']
          sample_world) \<and>
   main (sample_env [ShouldStop]) sample_flags
     \<lparr> config_cluster = Some [(''ps'', [''ps0:2222'']), (''worker'', [''w0:2222''])],
       config_task = Some \<lparr> type = ''ps'', index = Some 0 \<rparr> \<rparr> sample_world =
     ParameterServer_run (Some [(''ps'', [''ps0:2222'']), (''worker'', [''w0:2222''])])
       \<lparr> type = ''ps'', index = Some 0 \<rparr>
       (logging_info ''%s: Tensorflow version: %s.''
          [StrArg (task_as_string \<lparr> type = ''ps'', index = Some 0 \<rparr>), StrArg ''1.0.0'']
          sample_world) \<and>
   main (sample_env [ShouldStop]) sample_flags
     \<lparr> config_cluster = Some [(''ps'', [''ps0:2222'']), (''worker'', [''w0:2222''])],
       config_task = Some \<lparr> type = ''chief'', index = Some 0 \<rparr> \<rparr> sample_world =
     (Some (Inl (ValueError (task_as_string \<lparr> type = ''chief'', index = Some 0 \<rparr> @
                               '': Invalid task_type: chief.''))),
      logging_info ''%s: Tensorflow version: %s.''
        [StrArg (task_as_string \<lparr> type = ''chief'', index = Some 0 \<rparr>), StrArg ''1.0.0'']
        sample_world)"
proof -
  let ?cluster = "Some [(''ps'', [''ps0:2222'']), (''worker'', [''w0:2222''])]"
  note local = C10_dispatch_without_cluster
    [of None "\<lparr> type = ''ps'', index = Some 0 \<rparr>"
        "\<lparr> config_cluster = None, config_task = Some \<lparr> type = ''ps'', index = Some 0 \<rparr> \<rparr>"
        "sample_env [ShouldStop]" sample_flags sample_world]
  note worker = C10_dispatch_without_cluster
    [of "Some [(''ps'', [''ps0:2222''])]" "\<lparr> type = ''chief'', index = Some 0 \<rparr>"
        "\<lparr> config_cluster = ?cluster, config_task = Some \<lparr> type = ''worker'', index = Some 0 \<rparr> \<rparr>"
        "sample_env [ShouldStop]" sample_flags sample_world]
  note ps = C10_dispatch_without_cluster
    [of None "\<lparr> type = ''ps'', index = Some 0 \<rparr>"
        "\<lparr> config_cluster = ?cluster, config_task = Some \<lparr> type = ''ps'', index = Some 0 \<rparr> \<rparr>"
        "sample_env [ShouldStop]" sample_flags sample_world]
  note chief = C10_dispatch_without_cluster
    [of None "\<lparr> type = ''ps'', index = Some 0 \<rparr>"
        "\<lparr> config_cluster = ?cluster, config_task = Some \<lparr> type = ''chief'', index = Some 0 \<rparr> \<rparr>"
        "sample_env [ShouldStop]" sample_flags sample_world]
  from local have a: "main_dispatch None \<lparr> type = ''ps'', index = Some 0 \<rparr> = RunTrainer"
    by (simp add: cluster_truthy_def)
  from worker have b: "main_dispatch (Some [(''ps'', [''ps0:2222''])])
      \<lparr> type = ''chief'', index = Some 0 \<rparr> = InvalidTaskType"
    by (simp add: cluster_truthy_def)
  from local have c: "main (sample_env [ShouldStop]) sample_flags
     \<lparr> config_cluster = None, config_task = Some \<lparr> type = ''ps'', index = Some 0 \<rparr> \<rparr> sample_world =
     run (sample_env [ShouldStop]) sample_flags
       \<lparr> self_cluster = None, self_task = \<lparr> type = ''ps'', index = Some 0 \<rparr>,
         self_is_master = False, self_train_dir = ''/tmp/yt8m_model/'', self_config = False \<rparr>
       False
       (logging_info ''%s: Tensorflow version: %s.''
          [StrArg (task_as_string \<lparr> type = ''ps'', index = Some 0 \<rparr>), StrArg ''1.0.0''] sample_world)"
    by (simp add: cluster_truthy_def sample_flags_def sample_env_def)
  from worker have d: "main (sample_env [ShouldStop]) sample_flags
     \<lparr> config_cluster = ?cluster,
       config_task = Some \<lparr> type = ''worker'', index = Some 0 \<rparr> \<rparr> sample_world =
     run (sample_env [ShouldStop]) sample_flags
       \<lparr> self_cluster = ?cluster,
         self_task = \<lparr> type = ''worker'', index = Some 0 \<rparr>,
         self_is_master = False, self_train_dir = ''/tmp/yt8m_model/'', self_config = False \<rparr>
       False
       (logging_info ''%s: Tensorflow version: %s.''
          [StrArg (task_as_string \<lparr> type = ''worker'', index = Some 0 \<rparr>), StrArg ''1.0.0'']
          sample_world)"
    by (simp add: cluster_truthy_def sample_flags_def sample_env_def)
  from ps have e: "main (sample_env [ShouldStop]) sample_flags
     \<lparr> config_cluster = ?cluster,
       config_task = Some \<lparr> type = ''ps'', index = Some 0 \<rparr> \<rparr> sample_world =
     ParameterServer_run ?cluster \<lparr> type = ''ps'', index = Some 0 \<rparr>
       (logging_info ''%s: Tensorflow version: %s.''
          [StrArg (task_as_string \<lparr> type = ''ps'', index = Some 0 \<rparr>), StrArg ''1.0.0'']
          sample_world)"
    by (simp add: cluster_truthy_def sample_env_def)
  from chief have f: "main (sample_env [ShouldStop]) sample_flags
     \<lparr> config_cluster = ?cluster,
       config_task = Some \<lparr> type = ''chief'', index = Some 0 \<rparr> \<rparr> sample_world =
     (Some (Inl (ValueError (task_as_string \<lparr> type = ''chief'', index = Some 0 \<rparr> @
                               '': Invalid task_type: chief.''))),
      logging_info ''%s: Tensorflow version: %s.''
        [StrArg (task_as_string \<lparr> type = ''chief'', index = Some 0 \<rparr>), StrArg ''1.0.0'']
        sample_world)"
    by (simp add: cluster_truthy_def sample_env_def)
  from a b c d e f show ?thesis by (intro conjI)
qed

end
